theory Spec2Isabelle
  imports Complex_Main
begin

section \<open>Python values\<close>

text \<open>
  Python floats are modelled as exact reals: rounding error of binary floating point, NaN
  and overflow are outside the model. The one infinity the code writes itself,
  \<^verbatim>\<open>float("inf")\<close> in the detector, is a constructor of \<open>xfloat\<close>.
\<close>

datatype xfloat = Finite real | PosInf

fun xmin :: "xfloat \<Rightarrow> xfloat \<Rightarrow> xfloat" where
  "xmin (Finite a) (Finite b) = Finite (min a b)"
| "xmin (Finite a) PosInf = Finite a"
| "xmin PosInf b = b"

text \<open>
  Python's \<^verbatim>\<open>round(x, n)\<close>: to the nearest multiple of \<open>10\<^sup>-\<^sup>n\<close>, a tie going to
  the even neighbour.
\<close>

definition round_half_even :: "real \<Rightarrow> int" where
  "round_half_even y =
     (let f = \<lfloor>y\<rfloor>; d = y - of_int f
      in if d < 1 / 2 then f
         else if 1 / 2 < d then f + 1
         else if even f then f else f + 1)"

definition py_round :: "real \<Rightarrow> nat \<Rightarrow> real" where
  "py_round x n = of_int (round_half_even (x * 10 ^ n)) / 10 ^ n"

text \<open>
  The objects the venues send are parsed JSON: a dict is an association list that is looked
  up from the front.
\<close>

datatype json =
    JNull
  | JBool bool
  | JNum real
  | JStr string
  | JArr "json list"
  | JObj "(string \<times> json) list"

type_synonym jdict = "(string \<times> json) list"

datatype py_error =
    HTTPStatusError nat
  | RequestError
  | JSONDecodeError
  | ValueError
  | TypeError
  | AttributeError
  | KeyError
  | IndexError

text \<open>
  What the model takes from Python's library as given: \<^verbatim>\<open>float(s)\<close> on a string (\<open>None\<close>
  when it raises ValueError), \<^verbatim>\<open>datetime.fromisoformat\<close>, \<^verbatim>\<open>json.loads\<close> and \<^verbatim>\<open>str(x)\<close> of a
  value that is not a string.
\<close>

record py_lib =
  str2float :: "string \<Rightarrow> real option"
  fromisoformat :: "string \<Rightarrow> real option"
  json_loads :: "string \<Rightarrow> json option"
  str_of :: "json \<Rightarrow> string"

definition bind_err :: "py_error + 'a \<Rightarrow> ('a \<Rightarrow> py_error + 'b) \<Rightarrow> py_error + 'b" where
  "bind_err r f = (case r of Inl e \<Rightarrow> Inl e | Inr x \<Rightarrow> f x)"

text \<open>Truth value testing: \<^verbatim>\<open>if x\<close>, \<^verbatim>\<open>not x\<close>, \<^verbatim>\<open>x or y\<close>.\<close>

fun truthy :: "json \<Rightarrow> bool" where
  "truthy JNull = False"
| "truthy (JBool b) = b"
| "truthy (JNum r) = (r \<noteq> 0)"
| "truthy (JStr s) = (s \<noteq> [])"
| "truthy (JArr xs) = (xs \<noteq> [])"
| "truthy (JObj kvs) = (kvs \<noteq> [])"

definition py_or :: "json \<Rightarrow> json \<Rightarrow> json" where
  "py_or x y = (if truthy x then x else y)"

text \<open>\<^verbatim>\<open>d.get(key, default)\<close> and \<^verbatim>\<open>d.get(key)\<close> on a dict.\<close>

definition get_or :: "jdict \<Rightarrow> string \<Rightarrow> json \<Rightarrow> json" where
  "get_or d k dflt = (case map_of d k of None \<Rightarrow> dflt | Some v \<Rightarrow> v)"

definition get_none :: "jdict \<Rightarrow> string \<Rightarrow> json" where
  "get_none d k = get_or d k JNull"

text \<open>\<^verbatim>\<open>x.get\<close> raises AttributeError when \<open>x\<close> is not a dict.\<close>

fun as_dict :: "json \<Rightarrow> py_error + jdict" where
  "as_dict (JObj kvs) = Inr kvs"
| "as_dict _ = Inl AttributeError"

text \<open>
  \<^verbatim>\<open>for x in v\<close>: the elements of a list, the keys of a dict, the characters of a string;
  anything else is not iterable.
\<close>

fun py_iter :: "json \<Rightarrow> py_error + json list" where
  "py_iter (JArr xs) = Inr xs"
| "py_iter (JObj kvs) = Inr (map (\<lambda>kv. JStr (fst kv)) kvs)"
| "py_iter (JStr s) = Inr (map (\<lambda>c. JStr [c]) s)"
| "py_iter _ = Inl TypeError"

fun py_float :: "py_lib \<Rightarrow> json \<Rightarrow> py_error + real" where
  "py_float lib (JNum r) = Inr r"
| "py_float lib (JBool b) = Inr (if b then 1 else 0)"
| "py_float lib (JStr s) = (case str2float lib s of None \<Rightarrow> Inl ValueError | Some r \<Rightarrow> Inr r)"
| "py_float lib _ = Inl TypeError"

text \<open>
  A field that the code uses as text (\<^verbatim>\<open>mkt.get("ticker", "")\<close>): a JSON string; absent or
  null it counts as the empty string, which is as falsy as \<open>None\<close>. A value of another JSON
  type there is outside the model, which gives TypeError for it.
\<close>

definition text_field :: "jdict \<Rightarrow> string \<Rightarrow> py_error + string" where
  "text_field d k =
     (case map_of d k of
        None \<Rightarrow> Inr []
      | Some JNull \<Rightarrow> Inr []
      | Some (JStr s) \<Rightarrow> Inr s
      | Some _ \<Rightarrow> Inl TypeError)"

text \<open>An HTTP response: the status code and the body as \<^verbatim>\<open>resp.json()\<close> parses it, if it does.\<close>

record http_response =
  status_code :: nat
  json_body :: "json option"

text \<open>\<^verbatim>\<open>resp.raise_for_status()\<close> of httpx: an error for every status outside 200 to 299.\<close>

definition raise_for_status :: "http_response \<Rightarrow> py_error + http_response" where
  "raise_for_status resp =
     (if 200 \<le> status_code resp \<and> status_code resp < 300 then Inr resp
      else Inl (HTTPStatusError (status_code resp)))"

definition resp_json :: "http_response \<Rightarrow> py_error + json" where
  "resp_json resp = (case json_body resp of None \<Rightarrow> Inl JSONDecodeError | Some v \<Rightarrow> Inr v)"

section \<open>config.py\<close>

record settings =
  min_profit_cents :: real
  match_similarity_threshold :: int
  auto_execute :: bool
  max_position_size_usd :: real
  max_daily_loss_usd :: real
  polymarket_fee_rate :: real
  kalshi_fee_rate :: real
  max_polymarket_markets :: nat
  max_kalshi_markets :: nat

text \<open>The defaults \<open>config.py\<close> gives the fields.\<close>

definition default_settings :: settings where
  "default_settings =
     \<lparr>min_profit_cents = 2, match_similarity_threshold = 80, auto_execute = False,
      max_position_size_usd = 100, max_daily_loss_usd = 50,
      polymarket_fee_rate = 2 / 100, kalshi_fee_rate = 7 / 100,
      max_polymarket_markets = 5000, max_kalshi_markets = 15000\<rparr>"

section \<open>src/markets/models.py\<close>

datatype platform = POLYMARKET | KALSHI

record outcome =
  name :: string
  yes_price :: real
  no_price :: real
  token_id :: string
  yes_ask :: real
  no_ask :: real
  yes_bid :: real
  no_bid :: real
  yes_depth :: real
  no_depth :: real

text \<open>The dataclass defaults of \<open>Outcome\<close>: every numeric field 0.\<close>

definition Outcome :: "string \<Rightarrow> real \<Rightarrow> real \<Rightarrow> string \<Rightarrow> outcome" where
  "Outcome n yp np tok =
     \<lparr>name = n, yes_price = yp, no_price = np, token_id = tok,
      yes_ask = 0, no_ask = 0, yes_bid = 0, no_bid = 0, yes_depth = 0, no_depth = 0\<rparr>"

text \<open>A \<open>datetime\<close> is a number of seconds since the epoch.\<close>

type_synonym datetime = real

record market =
  platform :: platform
  market_id :: string
  title :: string
  event_title :: string
  outcomes :: "outcome list"
  expiration :: "datetime option"
  volume :: real
  url :: string
  ticker :: string

text \<open>The dataclass defaults of \<open>Market\<close>.\<close>

definition Market :: "platform \<Rightarrow> string \<Rightarrow> string \<Rightarrow> market" where
  "Market p i t =
     \<lparr>platform = p, market_id = i, title = t, event_title = [], outcomes = [],
      expiration = None, volume = 0, url = [], ticker = []\<rparr>"

record matched_market =
  kalshi_market :: market
  polymarket_market :: market
  similarity_score :: real
  kalshi_outcome :: "outcome option"
  polymarket_outcome :: "outcome option"

datatype direction = KALSHI_YES_POLY_NO | POLY_YES_KALSHI_NO

record arbitrage_opportunity =
  matched_market :: matched_market
  direction :: direction
  cost :: real
  profit :: real
  roi :: real
  max_size :: real
  timestamp :: datetime
  kalshi_price :: real
  polymarket_price :: real

section \<open>src/arbitrage/detector.py\<close>

definition effective_cost :: "real \<Rightarrow> real \<Rightarrow> real \<Rightarrow> real \<Rightarrow> real" where
  "effective_cost yp np yes_fee_rate no_fee_rate =
     (let fee_if_yes_wins = max 0 (1 - yp) * yes_fee_rate;
          fee_if_no_wins = max 0 (1 - np) * no_fee_rate;
          worst_fee = max fee_if_yes_wins fee_if_no_wins
      in yp + np + worst_fee)"

text \<open>
  The two leg prices of \<open>_check_direction\<close>: the ask when positive, else the mid price.
\<close>

definition leg_yes_price :: "outcome \<Rightarrow> real" where
  "leg_yes_price yes_outcome =
     (if yes_ask yes_outcome > 0 then yes_ask yes_outcome else yes_price yes_outcome)"

definition leg_no_price :: "outcome \<Rightarrow> real" where
  "leg_no_price no_outcome =
     (if no_ask no_outcome > 0 then no_ask no_outcome else no_price no_outcome)"

definition leg_max_size :: "outcome \<Rightarrow> outcome \<Rightarrow> real" where
  "leg_max_size yes_outcome no_outcome =
     (case xmin (if yes_depth yes_outcome > 0 then Finite (yes_depth yes_outcome) else PosInf)
                (if no_depth no_outcome > 0 then Finite (no_depth no_outcome) else PosInf) of
        PosInf \<Rightarrow> 0
      | Finite s \<Rightarrow> s)"

text \<open>\<open>now\<close> is what \<^verbatim>\<open>datetime.now(timezone.utc)\<close> returns.\<close>

definition check_direction ::
  "datetime \<Rightarrow> matched_market \<Rightarrow> direction \<Rightarrow> outcome \<Rightarrow> outcome \<Rightarrow> real \<Rightarrow> real \<Rightarrow> real
   \<Rightarrow> arbitrage_opportunity option" where
  "check_direction now mm dir yes_outcome no_outcome yes_fee_rate no_fee_rate min_profit =
     (let yp = leg_yes_price yes_outcome;
          np = leg_no_price no_outcome
      in if yp \<le> 0 \<or> np \<le> 0 then None
         else
           let cst = effective_cost yp np yes_fee_rate no_fee_rate;
               prf = 1 - cst
           in if prf < min_profit then None
              else
                let r = (if cst > 0 then (prf / cst) * 100 else 0);
                    sz = leg_max_size yes_outcome no_outcome
                in Some \<lparr>matched_market = mm, direction = dir,
                          cost = py_round cst 4, profit = py_round prf 4,
                          roi = py_round r 2, max_size = py_round sz 2,
                          timestamp = now,
                          kalshi_price = (if dir = KALSHI_YES_POLY_NO then yp else np),
                          polymarket_price = (if dir = KALSHI_YES_POLY_NO then np else yp)\<rparr>)"

text \<open>
  The keyword arguments of the two calls in \<open>detect_opportunities\<close>: direction A buys YES
  on Kalshi and NO on Polymarket, direction B the other way round, each leg with the fee
  rate of its venue.
\<close>

definition direction_legs ::
  "settings \<Rightarrow> direction \<Rightarrow> outcome \<Rightarrow> outcome \<Rightarrow> outcome \<times> outcome \<times> real \<times> real" where
  "direction_legs cfg dir ko po =
     (case dir of
        KALSHI_YES_POLY_NO \<Rightarrow> (ko, po, kalshi_fee_rate cfg, polymarket_fee_rate cfg)
      | POLY_YES_KALSHI_NO \<Rightarrow> (po, ko, polymarket_fee_rate cfg, kalshi_fee_rate cfg))"

definition check_pair_direction ::
  "settings \<Rightarrow> datetime \<Rightarrow> real \<Rightarrow> matched_market \<Rightarrow> direction \<Rightarrow> outcome \<Rightarrow> outcome
   \<Rightarrow> arbitrage_opportunity option" where
  "check_pair_direction cfg now min_profit mm dir ko po =
     (case direction_legs cfg dir ko po of
        (yes_outcome, no_outcome, yes_fee_rate, no_fee_rate) \<Rightarrow>
          check_direction now mm dir yes_outcome no_outcome yes_fee_rate no_fee_rate min_profit)"

text \<open>
  One iteration of the loop over the matched pairs: nothing when a primary outcome is
  missing, else direction A and then direction B, each appended when it is not \<open>None\<close>.
\<close>

definition pair_opportunities ::
  "settings \<Rightarrow> datetime \<Rightarrow> real \<Rightarrow> matched_market \<Rightarrow> arbitrage_opportunity list" where
  "pair_opportunities cfg now min_profit mm =
     (case kalshi_outcome mm of
        None \<Rightarrow> []
      | Some ko \<Rightarrow>
          (case polymarket_outcome mm of
             None \<Rightarrow> []
           | Some po \<Rightarrow>
               (case check_pair_direction cfg now min_profit mm KALSHI_YES_POLY_NO ko po of
                  None \<Rightarrow> [] | Some opp_a \<Rightarrow> [opp_a])
               @ (case check_pair_direction cfg now min_profit mm POLY_YES_KALSHI_NO ko po of
                    None \<Rightarrow> [] | Some opp_b \<Rightarrow> [opp_b])))"

text \<open>
  \<^verbatim>\<open>list.sort(key=..., reverse=True)\<close> is stable: descending keys, equal keys in their
  original order. \<open>sort_key\<close> is a stable insertion sort, here on the negated key.
\<close>

definition detect_opportunities ::
  "settings \<Rightarrow> datetime \<Rightarrow> matched_market list \<Rightarrow> real option \<Rightarrow> arbitrage_opportunity list" where
  "detect_opportunities cfg now matched_markets min_profit_cents_arg =
     (let mpc = (case min_profit_cents_arg of None \<Rightarrow> min_profit_cents cfg | Some c \<Rightarrow> c);
          min_profit = mpc / 100;
          opportunities = concat (map (pair_opportunities cfg now min_profit) matched_markets)
      in sort_key (\<lambda>opp. - roi opp) opportunities)"


section \<open>src/matching/matcher.py\<close>

text \<open>
  \<open>_normalize\<close>, on ASCII text: \<^verbatim>\<open>\s\<close> and \<^verbatim>\<open>strip()\<close> take the characters 9 to 13, 28 to 31
  and the space as whitespace, \<^verbatim>\<open>\w\<close> takes letters, digits and the underscore.
\<close>

definition is_space :: "char \<Rightarrow> bool" where
  "is_space c =
     (let n = (of_char c :: nat) in (9 \<le> n \<and> n \<le> 13) \<or> (28 \<le> n \<and> n \<le> 32))"

definition is_word :: "char \<Rightarrow> bool" where
  "is_word c =
     (let n = (of_char c :: nat)
      in (48 \<le> n \<and> n \<le> 57) \<or> (65 \<le> n \<and> n \<le> 90) \<or> n = 95 \<or> (97 \<le> n \<and> n \<le> 122))"

text \<open>An upper-case letter and its lower-case letter differ in bit 5 of the code only.\<close>

definition lower_char :: "char \<Rightarrow> char" where
  "lower_char c =
     (let n = (of_char c :: nat)
      in if 65 \<le> n \<and> n \<le> 90
         then Char (digit0 c) (digit1 c) (digit2 c) (digit3 c) (digit4 c) True (digit6 c) (digit7 c)
         else c)"

definition strip :: "string \<Rightarrow> string" where
  "strip s = rev (dropWhile is_space (rev (dropWhile is_space s)))"

text \<open>\<^verbatim>\<open>re.sub(r"\s+", " ", text)\<close>; the flag says that the run of whitespace has begun.\<close>

fun collapse_spaces :: "bool \<Rightarrow> string \<Rightarrow> string" where
  "collapse_spaces in_run [] = []"
| "collapse_spaces in_run (c # cs) =
     (if is_space c
      then (if in_run then collapse_spaces True cs else CHR '' '' # collapse_spaces True cs)
      else c # collapse_spaces False cs)"

definition normalize :: "string \<Rightarrow> string" where
  "normalize txt =
     (let t1 = strip (map lower_char txt);
          t2 = map (\<lambda>c. if is_word c \<or> is_space c then c else CHR '' '') t1;
          t3 = collapse_spaces False t2
      in strip t3)"

definition build_match :: "market \<Rightarrow> market \<Rightarrow> real \<Rightarrow> matched_market" where
  "build_match km pm score =
     \<lparr>kalshi_market = km, polymarket_market = pm, similarity_score = score,
      kalshi_outcome = (case outcomes km of [] \<Rightarrow> None | ko # _ \<Rightarrow> Some ko),
      polymarket_outcome = (case outcomes pm of [] \<Rightarrow> None | po # _ \<Rightarrow> Some po)\<rparr>"

text \<open>
  The matcher object. The overrides and exclusions are what \<open>_load_overrides\<close> read from
  the overrides file.
\<close>

record market_matcher =
  threshold :: int
  cache :: "string \<rightharpoonup> matched_market"
  excluded :: "string set"
  manual_overrides :: "string \<rightharpoonup> string"

definition MarketMatcher ::
  "settings \<Rightarrow> int option \<Rightarrow> (string \<rightharpoonup> string) \<Rightarrow> string set \<Rightarrow> market_matcher" where
  "MarketMatcher cfg threshold_arg loaded_overrides loaded_excluded =
     \<lparr>threshold = (case threshold_arg of
                      None \<Rightarrow> match_similarity_threshold cfg
                    | Some t \<Rightarrow> if t = 0 then match_similarity_threshold cfg else t),
      cache = Map.empty, excluded = loaded_excluded, manual_overrides = loaded_overrides\<rparr>"

definition clear_cache :: "market_matcher \<Rightarrow> market_matcher" where
  "clear_cache self = self\<lparr>cache := Map.empty\<rparr>"

text \<open>
  A Python dict that is iterated keeps its keys in insertion order, and assigning to a key
  it has keeps the key's place: an association list, updated in place or extended at the
  end.
\<close>

fun dict_set :: "'k \<Rightarrow> 'v \<Rightarrow> ('k \<times> 'v) list \<Rightarrow> ('k \<times> 'v) list" where
  "dict_set k v [] = [(k, v)]"
| "dict_set k v ((k', v') # kvs) =
     (if k' = k then (k, v) # kvs else (k', v') # dict_set k v kvs)"

text \<open>
  \<^verbatim>\<open>process.extractOne(query, choices, scorer=..., score_cutoff=...)\<close> of the rapidfuzz
  library, with the score rapidfuzz gives a query and a choice as the parameter
  \<open>scorer\<close>: the first choice of the highest score among those that reach the cutoff, as
  (choice, score, index), or \<open>None\<close>.
\<close>

definition extract_step ::
  "(string \<Rightarrow> string \<Rightarrow> real) \<Rightarrow> string \<Rightarrow> real \<Rightarrow> nat \<times> string
   \<Rightarrow> (string \<times> real \<times> nat) option \<Rightarrow> (string \<times> real \<times> nat) option" where
  "extract_step scorer query score_cutoff ic best =
     (let score = scorer query (snd ic)
      in if score \<ge> score_cutoff
            \<and> (case best of None \<Rightarrow> True | Some (_, best_score, _) \<Rightarrow> score > best_score)
         then Some (snd ic, score, fst ic) else best)"

definition extractOne ::
  "(string \<Rightarrow> string \<Rightarrow> real) \<Rightarrow> string \<Rightarrow> string list \<Rightarrow> real
   \<Rightarrow> (string \<times> real \<times> nat) option" where
  "extractOne scorer query choices score_cutoff =
     fold (extract_step scorer query score_cutoff) (enumerate 0 choices) None"

text \<open>\<^verbatim>\<open>{pm.id: pm for pm in polymarket_markets}\<close>: of two markets with one id the later stays.\<close>

definition poly_by_id :: "market list \<Rightarrow> (string \<rightharpoonup> market)" where
  "poly_by_id polymarket_markets = map_of (rev (map (\<lambda>pm. (market_id pm, pm)) polymarket_markets))"

text \<open>The first loop of \<open>match\<close>: the manual overrides.\<close>

record override_acc =
  override_matches :: "matched_market list"
  acc_cache :: "string \<rightharpoonup> matched_market"
  overridden_kalshi :: "string set"
  overridden_poly :: "string set"

definition override_step ::
  "market_matcher \<Rightarrow> (string \<rightharpoonup> market) \<Rightarrow> market \<Rightarrow> override_acc \<Rightarrow> override_acc" where
  "override_step self by_id km acc =
     (case manual_overrides self (market_id km) of
        None \<Rightarrow> acc
      | Some target_id \<Rightarrow>
          (case by_id target_id of
             None \<Rightarrow> acc
           | Some pm \<Rightarrow>
               let m = build_match km pm 100
               in \<lparr>override_matches = override_matches acc @ [m],
                   acc_cache = (acc_cache acc)(market_id km \<mapsto> m),
                   overridden_kalshi = insert (market_id km) (overridden_kalshi acc),
                   overridden_poly = insert (market_id pm) (overridden_poly acc)\<rparr>))"

text \<open>
  The second loop: one Kalshi market against the Polymarket titles. The state is
  \<open>best_matches\<close> and the cache.
\<close>

type_synonym best_matches = "((string \<times> string) \<times> (real \<times> matched_market)) list"

definition fuzzy_step ::
  "(string \<Rightarrow> string \<Rightarrow> real) \<Rightarrow> market_matcher \<Rightarrow> string set \<Rightarrow> market list \<Rightarrow> string list
   \<Rightarrow> market \<Rightarrow> best_matches \<times> (string \<rightharpoonup> matched_market)
   \<Rightarrow> best_matches \<times> (string \<rightharpoonup> matched_market)" where
  "fuzzy_step scorer self ov_kalshi poly_list poly_titles km st =
     (let best = fst st; cch = snd st
      in if market_id km \<in> ov_kalshi \<or> market_id km \<in> excluded self then st
         else
           (case cch (market_id km) of
              Some cached \<Rightarrow>
                let pair_key = (market_id km, market_id (polymarket_market cached))
                in if (case map_of best pair_key of
                         None \<Rightarrow> True
                       | Some (s0, _) \<Rightarrow> similarity_score cached > s0)
                   then (dict_set pair_key (similarity_score cached, cached) best, cch)
                   else st
            | None \<Rightarrow>
                (case extractOne scorer (normalize (title km)) poly_titles
                        (of_int (threshold self)) of
                   None \<Rightarrow> st
                 | Some (_, score, idx) \<Rightarrow>
                     let pm = poly_list ! idx;
                         pair_key = (market_id km, market_id pm)
                     in if (case map_of best pair_key of
                              None \<Rightarrow> True
                            | Some (s0, _) \<Rightarrow> score > s0)
                        then let m = build_match km pm score
                             in (dict_set pair_key (score, m) best, cch(market_id km \<mapsto> m))
                        else st)))"

text \<open>The two deduplication loops.\<close>

definition kalshi_best_step ::
  "(string \<times> string) \<times> (real \<times> matched_market) \<Rightarrow> (string \<times> (real \<times> matched_market)) list
   \<Rightarrow> (string \<times> (real \<times> matched_market)) list" where
  "kalshi_best_step entry kalshi_best =
     (let kid = fst (fst entry); score = fst (snd entry); m = snd (snd entry)
      in if (case map_of kalshi_best kid of None \<Rightarrow> True | Some (s0, _) \<Rightarrow> score > s0)
         then dict_set kid (score, m) kalshi_best else kalshi_best)"

definition poly_best_step ::
  "string \<times> (real \<times> matched_market) \<Rightarrow> (string \<times> (real \<times> matched_market)) list
   \<Rightarrow> (string \<times> (real \<times> matched_market)) list" where
  "poly_best_step entry poly_best =
     (let score = fst (snd entry); m = snd (snd entry);
          pid = market_id (polymarket_market m)
      in if (case map_of poly_best pid of None \<Rightarrow> True | Some (s0, _) \<Rightarrow> score > s0)
         then dict_set pid (score, m) poly_best else poly_best)"

text \<open>The first loop over the Kalshi markets, and the second one with what it starts from.\<close>

definition match_overrides :: "market_matcher \<Rightarrow> market list \<Rightarrow> market list \<Rightarrow> override_acc" where
  "match_overrides self kalshi_markets polymarket_markets =
     fold (override_step self (poly_by_id polymarket_markets)) kalshi_markets
       \<lparr>override_matches = [], acc_cache = cache self,
        overridden_kalshi = {}, overridden_poly = {}\<rparr>"

definition fuzzy_candidates ::
  "(string \<Rightarrow> string \<Rightarrow> real) \<Rightarrow> market_matcher \<Rightarrow> override_acc \<Rightarrow> market list \<Rightarrow> market list
   \<Rightarrow> best_matches \<times> (string \<rightharpoonup> matched_market)" where
  "fuzzy_candidates scorer self acc poly_list kalshi_markets =
     fold (fuzzy_step scorer self (overridden_kalshi acc) poly_list
             (map (\<lambda>pm. normalize (title pm)) poly_list))
       kalshi_markets ([], acc_cache acc)"

text \<open>
  \<open>match\<close> returns the matched pairs and leaves the matcher with its cache updated.
\<close>

definition match ::
  "(string \<Rightarrow> string \<Rightarrow> real) \<Rightarrow> market_matcher \<Rightarrow> market list \<Rightarrow> market list
   \<Rightarrow> matched_market list \<times> market_matcher" where
  "match scorer self kalshi_markets polymarket_markets =
     (if kalshi_markets = [] \<or> polymarket_markets = [] then ([], self)
      else
        let acc = match_overrides self kalshi_markets polymarket_markets;
            poly_list = filter (\<lambda>pm. market_id pm \<notin> overridden_poly acc) polymarket_markets;
            poly_titles = map (\<lambda>pm. normalize (title pm)) poly_list
        in if poly_titles = [] then (override_matches acc, self\<lparr>cache := acc_cache acc\<rparr>)
           else
             let st = fuzzy_candidates scorer self acc poly_list kalshi_markets;
                 kalshi_best = fold kalshi_best_step (fst st) [];
                 poly_best = fold poly_best_step kalshi_best [];
                 matched = override_matches acc @ map (\<lambda>e. snd (snd e)) poly_best
             in (sort_key (\<lambda>m. - similarity_score m) matched, self\<lparr>cache := snd st\<rparr>))"

text \<open>
  The invariant of the second loop for a market id \<open>k\<close> that the cache maps to \<open>cached\<close>: the
  cache keeps the entry, and every candidate recorded for \<open>k\<close> is the cached pair at its
  cached score.
\<close>

definition only_cached ::
  "string \<Rightarrow> matched_market \<Rightarrow> best_matches \<times> (string \<rightharpoonup> matched_market) \<Rightarrow> bool" where
  "only_cached k cached st \<longleftrightarrow>
     snd st k = Some cached
     \<and> (\<forall>pid v. ((k, pid), v) \<in> set (fst st) \<longrightarrow>
           pid = market_id (polymarket_market cached) \<and> v = (similarity_score cached, cached))"

section \<open>src/markets/kalshi.py\<close>


subsection \<open>\<open>_get_with_retry\<close>\<close>

text \<open>
  \<open>client\<close> gives the outcome of the GET that attempt \<open>attempt\<close> (0 to 4) issues: a
  response, or the exception \<^verbatim>\<open>client.get\<close> raises. The result of the call comes with what
  the caller can observe of it: the waits slept, in order, and the number of GETs issued.
\<close>

record retry_result =
  returned :: "py_error + http_response"
  slept :: "real list"
  requests :: nat

text \<open>
  The \<^verbatim>\<open>for attempt in range(5)\<close> loop, from \<open>attempt\<close> on; \<open>prev\<close> is the variable \<open>resp\<close>
  as the previous iteration left it. After the loop \<open>resp\<close> is bound, since the range is
  not empty.
\<close>

function retry_loop ::
  "(nat \<Rightarrow> py_error + http_response) \<Rightarrow> nat \<Rightarrow> http_response option \<Rightarrow> real list
   \<Rightarrow> retry_result" where
  "retry_loop client attempt prev waits =
     (if attempt < 5
      then (case client attempt of
              Inl e \<Rightarrow> \<lparr>returned = Inl e, slept = waits, requests = attempt + 1\<rparr>
            | Inr resp \<Rightarrow>
                if status_code resp = 429
                then retry_loop client (attempt + 1) (Some resp)
                       (waits @ [15 / 10 * (real attempt + 1)])
                else \<lparr>returned = raise_for_status resp, slept = waits, requests = attempt + 1\<rparr>)
      else (case prev of
              Some resp \<Rightarrow> \<lparr>returned = raise_for_status resp, slept = waits, requests = attempt\<rparr>
            | None \<Rightarrow> \<lparr>returned = Inl TypeError, slept = waits, requests = attempt\<rparr>))"
  by pat_completeness auto
termination
  by (relation "measure (\<lambda>(client, attempt, prev, waits). 5 - attempt)") auto

definition get_with_retry :: "(nat \<Rightarrow> py_error + http_response) \<Rightarrow> retry_result" where
  "get_with_retry client = retry_loop client 0 None []"

text \<open>
  The retry policy in the words of the specification, to compare \<open>get_with_retry\<close> with:
  \<open>k\<close> is the number of 429 responses before the first other outcome, among the five
  attempts. The waits are 1.5 seconds times the number of the attempt, counted from 1, one
  after each 429. When all five attempts got 429 the call raises for the status; else the
  outcome of attempt \<open>k\<close> decides: an exception of the GET goes on to the caller, a 2xx
  response is returned, any other status raises; no request follows.
\<close>

definition is_429 :: "py_error + http_response \<Rightarrow> bool" where
  "is_429 r = (case r of Inl _ \<Rightarrow> False | Inr resp \<Rightarrow> status_code resp = 429)"

definition leading_429s :: "(nat \<Rightarrow> py_error + http_response) \<Rightarrow> nat" where
  "leading_429s client = length (takeWhile (\<lambda>i. is_429 (client i)) [0..<5])"

definition retry_policy :: "(nat \<Rightarrow> py_error + http_response) \<Rightarrow> retry_result" where
  "retry_policy client =
     (let k = leading_429s client
      in if k = 5
         then \<lparr>returned = Inl (HTTPStatusError 429),
               slept = map (\<lambda>i. 15 / 10 * real (i + 1)) [0..<5], requests = 5\<rparr>
         else \<lparr>returned =
                 (case client k of
                    Inl e \<Rightarrow> Inl e
                  | Inr resp \<Rightarrow>
                      if 200 \<le> status_code resp \<and> status_code resp < 300 then Inr resp
                      else Inl (HTTPStatusError (status_code resp))),
               slept = map (\<lambda>i. 15 / 10 * real (i + 1)) [0..<k], requests = k + 1\<rparr>)"

subsection \<open>\<open>_parse_market\<close>\<close>

text \<open>\<^verbatim>\<open>s.split("-")[0]\<close> and \<^verbatim>\<open>s.lower()\<close>.\<close>

definition split_dash_first :: "string \<Rightarrow> string" where
  "split_dash_first s = takeWhile (\<lambda>c. c \<noteq> CHR ''-'') s"

definition lower :: "string \<Rightarrow> string" where
  "lower s = map lower_char s"

text \<open>\<^verbatim>\<open>float(mkt.get(key, 0) or 0)\<close>.\<close>

definition float_field :: "py_lib \<Rightarrow> jdict \<Rightarrow> string \<Rightarrow> py_error + real" where
  "float_field lib mkt k = py_float lib (py_or (get_or mkt k (JNum 0)) (JNum 0))"

text \<open>\<^verbatim>\<open>s.replace("Z", "+00:00")\<close>.\<close>

definition replace_Z :: "string \<Rightarrow> string" where
  "replace_Z s = concat (map (\<lambda>c. if c = CHR ''Z'' then ''+00:00'' else [c]) s)"

text \<open>
  The expiration of a Kalshi market; whatever the \<^verbatim>\<open>try\<close> block raises leaves it \<open>None\<close>.
\<close>

definition kalshi_expiration :: "py_lib \<Rightarrow> jdict \<Rightarrow> datetime option" where
  "kalshi_expiration lib mkt =
     (case py_or (get_none mkt ''expiration_time'') (get_none mkt ''close_time'') of
        JStr exp_str \<Rightarrow> if exp_str = [] then None else fromisoformat lib (replace_Z exp_str)
      | _ \<Rightarrow> None)"

text \<open>
  The two prices of a Kalshi market, as lines 211 to 222 compute them: read, derived from
  \<open>last_price\<close> when both are 0, and divided by 100 when above 1.
\<close>

definition derive_from_last_price ::
  "py_lib \<Rightarrow> jdict \<Rightarrow> real \<Rightarrow> real \<Rightarrow> py_error + real \<times> real" where
  "derive_from_last_price lib mkt yes0 no0 =
     (if yes0 = 0 \<and> no0 = 0
      then bind_err (float_field lib mkt ''last_price'') (\<lambda>last_price.
             if last_price > 0
             then let y = (if last_price > 1 then last_price / 100 else last_price)
                  in Inr (y, py_round (1 - y) 4)
             else Inr (yes0, no0))
      else Inr (yes0, no0))"

definition cents_to_fraction :: "real \<Rightarrow> real" where
  "cents_to_fraction p = (if p > 1 then p / 100 else p)"

definition kalshi_prices :: "py_lib \<Rightarrow> jdict \<Rightarrow> py_error + real \<times> real" where
  "kalshi_prices lib mkt =
     bind_err (float_field lib mkt ''yes_price'') (\<lambda>yes0.
     bind_err (float_field lib mkt ''no_price'') (\<lambda>no0.
     bind_err (derive_from_last_price lib mkt yes0 no0) (\<lambda>(yes1, no1).
     Inr (cents_to_fraction yes1, cents_to_fraction no1))))"

text \<open>\<open>_parse_market\<close> from line 211 on, where ticker and title are not empty.\<close>

definition build_kalshi_market ::
  "py_lib \<Rightarrow> jdict \<Rightarrow> string \<Rightarrow> string \<Rightarrow> string \<Rightarrow> py_error + market" where
  "build_kalshi_market lib mkt event_title_arg tick ttl =
     bind_err (kalshi_prices lib mkt) (\<lambda>(yes_p, no_p).
     bind_err (float_field lib mkt ''volume'') (\<lambda>vol.
     bind_err (text_field mkt ''subtitle'') (\<lambda>subtitle.
     bind_err (text_field mkt ''event_ticker'') (\<lambda>event_ticker_raw.
     bind_err (text_field mkt ''series_ticker'') (\<lambda>series0.
     let series1 = (if series0 = [] \<and> event_ticker_raw \<noteq> []
                    then split_dash_first event_ticker_raw else series0);
         series = (if series1 = [] then split_dash_first tick else series1);
         event_slug = (if event_ticker_raw \<noteq> [] then lower event_ticker_raw else lower tick)
     in Inr \<lparr>platform = KALSHI, market_id = tick, title = ttl,
             event_title = (if event_title_arg \<noteq> [] then event_title_arg
                            else if subtitle \<noteq> [] then subtitle else event_ticker_raw),
             outcomes = [Outcome ttl yes_p no_p tick],
             expiration = kalshi_expiration lib mkt,
             volume = vol,
             url = ''https://kalshi.com/markets/'' @ lower series @ ''/'' @ event_slug,
             ticker = tick\<rparr>)))))"

definition parse_market :: "py_lib \<Rightarrow> jdict \<Rightarrow> string \<Rightarrow> py_error + market option" where
  "parse_market lib mkt event_title_arg =
     bind_err (text_field mkt ''ticker'') (\<lambda>tick.
     bind_err (text_field mkt ''title'') (\<lambda>ttl.
     if tick = [] \<or> ttl = [] then Inr None
     else bind_err (build_kalshi_market lib mkt event_title_arg tick ttl) (\<lambda>m. Inr (Some m))))"

subsection \<open>Discovery\<close>

text \<open>
  Each request of a pagination loop is an entry of \<open>pages\<close>: what \<open>_get_with_retry\<close>
  returned or raised for it. The list holds the answers the server gave to this call; when
  it is used up the next request counts as failed.
\<close>

type_synonym page = "py_error + http_response"










section \<open>src/markets/polymarket.py\<close>

text \<open>A field that may arrive as a JSON-encoded string: parsed, or \<open>[]\<close> when that fails.\<close>

definition decode_field :: "py_lib \<Rightarrow> json \<Rightarrow> json" where
  "decode_field lib v =
     (case v of
        JStr s \<Rightarrow> (case json_loads lib s of None \<Rightarrow> JArr [] | Some j \<Rightarrow> j)
      | _ \<Rightarrow> v)"

fun py_len :: "json \<Rightarrow> py_error + nat" where
  "py_len (JArr xs) = Inr (length xs)"
| "py_len (JStr s) = Inr (length s)"
| "py_len (JObj kvs) = Inr (length kvs)"
| "py_len _ = Inl TypeError"

text \<open>\<^verbatim>\<open>v[i]\<close> for an index \<open>i\<close> that is a natural number.\<close>

fun py_index :: "json \<Rightarrow> nat \<Rightarrow> py_error + json" where
  "py_index (JArr xs) i = (if i < length xs then Inr (xs ! i) else Inl IndexError)"
| "py_index (JStr s) i = (if i < length s then Inr (JStr [s ! i]) else Inl IndexError)"
| "py_index (JObj kvs) i = Inl KeyError"
| "py_index _ i = Inl TypeError"

definition py_str :: "py_lib \<Rightarrow> json \<Rightarrow> string" where
  "py_str lib v = (case v of JStr s \<Rightarrow> s | _ \<Rightarrow> str_of lib v)"

text \<open>The body of the loop of \<open>_parse_outcomes\<close>, for the name at index \<open>i\<close>.\<close>

definition parse_outcome :: "py_lib \<Rightarrow> json \<Rightarrow> json \<Rightarrow> nat \<times> json \<Rightarrow> py_error + outcome" where
  "parse_outcome lib outcome_prices clob_token_ids ix =
     (let i = fst ix; nm = snd ix
      in bind_err (py_len outcome_prices) (\<lambda>n_prices.
         bind_err (if i < n_prices then bind_err (py_index outcome_prices i) (py_float lib)
                   else Inr 0) (\<lambda>price.
         bind_err (py_len clob_token_ids) (\<lambda>n_tokens.
         bind_err (if i < n_tokens then py_index clob_token_ids i else Inr (JStr [])) (\<lambda>tok.
         Inr (Outcome (py_str lib nm) price
                (if price \<noteq> 0 then py_round (1 - price) 4 else 0) (py_str lib tok)))))))"

fun map_err :: "('a \<Rightarrow> py_error + 'b) \<Rightarrow> 'a list \<Rightarrow> py_error + 'b list" where
  "map_err f [] = Inr []"
| "map_err f (x # xs) = bind_err (f x) (\<lambda>y. bind_err (map_err f xs) (\<lambda>ys. Inr (y # ys)))"

definition parse_outcomes :: "py_lib \<Rightarrow> jdict \<Rightarrow> py_error + outcome list" where
  "parse_outcomes lib mkt =
     (let outcome_names = decode_field lib (get_or mkt ''outcomes'' (JArr []));
          outcome_prices = decode_field lib (get_or mkt ''outcomePrices'' (JArr []));
          clob_token_ids = decode_field lib (get_or mkt ''clobTokenIds'' (JArr []))
      in bind_err (py_iter outcome_names) (\<lambda>names.
         map_err (parse_outcome lib outcome_prices clob_token_ids) (enumerate 0 names)))"








subsection \<open>The order book\<close>

text \<open>\<open>clob\<close> is the CLOB server: what \<^verbatim>\<open>client.get\<close> returns or raises for a token id.\<close>

definition fetch_orderbook :: "(string \<Rightarrow> page) \<Rightarrow> string \<Rightarrow> json" where
  "fetch_orderbook clob tok =
     (case clob tok of
        Inl _ \<Rightarrow> JObj []
      | Inr resp \<Rightarrow>
          if status_code resp = 404 then JObj []
          else (case bind_err (raise_for_status resp) resp_json of
                  Inl _ \<Rightarrow> JObj []
                | Inr v \<Rightarrow> v))"

text \<open>
  \<^verbatim>\<open>min(xs, key=f)\<close> and \<^verbatim>\<open>max(xs, key=f)\<close> on a list that is not empty: the first element
  whose key is the least (the greatest). \<open>better k' k\<close> says that the key \<open>k'\<close> replaces \<open>k\<close>.
\<close>

fun first_best :: "(real \<Rightarrow> real \<Rightarrow> bool) \<Rightarrow> real \<times> 'a \<Rightarrow> (real \<times> 'a) list \<Rightarrow> 'a" where
  "first_best better cur [] = snd cur"
| "first_best better cur (kx # kxs) =
     (if better (fst kx) (fst cur) then first_best better kx kxs
      else first_best better cur kxs)"

text \<open>The key \<^verbatim>\<open>lambda o: float(o.get("price", dflt))\<close>.\<close>

definition price_key :: "py_lib \<Rightarrow> real \<Rightarrow> json \<Rightarrow> py_error + real \<times> json" where
  "price_key lib dflt entry =
     bind_err (as_dict entry) (\<lambda>d.
     bind_err (py_float lib (get_or d ''price'' (JNum dflt))) (\<lambda>k. Inr (k, entry)))"

definition best_entry ::
  "py_lib \<Rightarrow> (real \<Rightarrow> real \<Rightarrow> bool) \<Rightarrow> real \<Rightarrow> json \<Rightarrow> py_error + jdict" where
  "best_entry lib better dflt entries =
     bind_err (py_iter entries) (\<lambda>xs.
     bind_err (map_err (price_key lib dflt) xs) (\<lambda>keyed.
     case keyed of
       [] \<Rightarrow> Inl ValueError
     | kx # kxs \<Rightarrow> as_dict (first_best better kx kxs)))"

text \<open>
  The three steps of the loop body of \<open>enrich_outcomes_with_orderbook\<close>: the best ask
  gives \<open>yes_ask\<close> and \<open>yes_depth\<close>, the best bid \<open>yes_bid\<close>, and the NO side is derived.
\<close>

definition set_best_ask :: "py_lib \<Rightarrow> json \<Rightarrow> outcome \<Rightarrow> py_error + outcome" where
  "set_best_ask lib asks oc =
     (if truthy asks
      then bind_err (best_entry lib (\<lambda>k' k. k' < k) 999 asks) (\<lambda>best_ask.
           bind_err (py_float lib (get_or best_ask ''price'' (JNum 0))) (\<lambda>p.
           bind_err (py_float lib (get_or best_ask ''size'' (JNum 0))) (\<lambda>sz.
           Inr (oc\<lparr>yes_ask := p, yes_depth := sz\<rparr>))))
      else Inr oc)"

definition set_best_bid :: "py_lib \<Rightarrow> json \<Rightarrow> outcome \<Rightarrow> py_error + outcome" where
  "set_best_bid lib bids oc =
     (if truthy bids
      then bind_err (best_entry lib (\<lambda>k' k. k' > k) 0 bids) (\<lambda>best_bid.
           bind_err (py_float lib (get_or best_bid ''price'' (JNum 0))) (\<lambda>p.
           Inr (oc\<lparr>yes_bid := p\<rparr>)))
      else Inr oc)"

definition derive_no_side :: "outcome \<Rightarrow> outcome" where
  "derive_no_side oc =
     oc\<lparr>no_ask := (if yes_bid oc \<noteq> 0 then py_round (1 - yes_bid oc) 4 else 0),
        no_bid := (if yes_ask oc \<noteq> 0 then py_round (1 - yes_ask oc) 4 else 0),
        no_depth := yes_depth oc\<rparr>"

definition enrich_outcome :: "py_lib \<Rightarrow> (string \<Rightarrow> page) \<Rightarrow> outcome \<Rightarrow> py_error + outcome" where
  "enrich_outcome lib clob oc =
     (if token_id oc = [] then Inr oc
      else
        bind_err (as_dict (fetch_orderbook clob (token_id oc))) (\<lambda>book.
        let bids = get_or book ''bids'' (JArr []);
            asks = get_or book ''asks'' (JArr [])
        in bind_err (set_best_ask lib asks oc) (\<lambda>oc1.
           bind_err (set_best_bid lib bids oc1) (\<lambda>oc2.
           Inr (derive_no_side oc2)))))"

text \<open>
  The method changes the outcomes in place and returns the market; the model gives the
  market it returns, and the exception when it raises.
\<close>

definition enrich_outcomes_with_orderbook ::
  "py_lib \<Rightarrow> (string \<Rightarrow> page) \<Rightarrow> market \<Rightarrow> py_error + market" where
  "enrich_outcomes_with_orderbook lib clob mkt =
     bind_err (map_err (enrich_outcome lib clob) (outcomes mkt)) (\<lambda>outs.
     Inr (mkt\<lparr>outcomes := outs\<rparr>))"

section \<open>src/arbitrage/executor.py\<close>

text \<open>
  The text of the \<open>error\<close> field of a record: empty, one of the five guardrail
  messages with the numbers it prints, or the text of the exception of a leg.
\<close>

datatype error_text =
    NoError
  | AutoExecutionDisabled
  | DailyLossLimitReached real
  | ProfitBelowMinimum real real
  | CooldownActive real real
  | NoExecutableSize
  | LegException string

record execution_record =
  opportunity :: arbitrage_opportunity
  executed_at :: datetime
  success :: bool
  error :: error_text
  pnl :: real

text \<open>
  The executor. \<open>daily_reset_date\<close> is the UTC day of the last reset, \<open>None\<close> for the empty
  string the constructor sets. The fields \<open>min_profit_cents\<close> and \<open>max_daily_loss_usd\<close> of
  the class carry the prefix \<open>exec\<close> here, apart from those of the settings.
\<close>

record trade_executor =
  enabled :: bool
  max_position_usd :: real
  exec_max_daily_loss_usd :: real
  exec_min_profit_cents :: real
  cooldown_seconds :: real
  daily_pnl :: real
  daily_reset_date :: "int option"
  last_execution :: "datetime option"
  execution_log :: "execution_record list"

definition TradeExecutor :: "settings \<Rightarrow> trade_executor" where
  "TradeExecutor cfg =
     \<lparr>enabled = auto_execute cfg,
      max_position_usd = max_position_size_usd cfg,
      exec_max_daily_loss_usd = max_daily_loss_usd cfg,
      exec_min_profit_cents = min_profit_cents cfg,
      cooldown_seconds = 5,
      daily_pnl = 0, daily_reset_date = None, last_execution = None, execution_log = []\<rparr>"

text \<open>
  \<^verbatim>\<open>datetime.now(timezone.utc).strftime("%Y-%m-%d")\<close>: the UTC day of an instant, as the
  number of whole days since the epoch. One call of \<open>execute\<close> reads the clock as \<open>now\<close>
  throughout.
\<close>

definition utc_day :: "datetime \<Rightarrow> int" where
  "utc_day now = \<lfloor>now / 86400\<rfloor>"

definition reset_daily_if_needed :: "datetime \<Rightarrow> trade_executor \<Rightarrow> trade_executor" where
  "reset_daily_if_needed now self =
     (if daily_reset_date self \<noteq> Some (utc_day now)
      then self\<lparr>daily_pnl := 0, daily_reset_date := Some (utc_day now)\<rparr>
      else self)"

definition position_size :: "trade_executor \<Rightarrow> arbitrage_opportunity \<Rightarrow> real" where
  "position_size self opp =
     (if max_size opp > 0 then min (max_size opp) (max_position_usd self)
      else max_position_usd self)"

text \<open>
  The seconds since the last execution, when there was one less than \<open>cooldown_seconds\<close>
  ago.
\<close>

definition cooldown_elapsed :: "datetime \<Rightarrow> trade_executor \<Rightarrow> real option" where
  "cooldown_elapsed now self =
     (case last_execution self of
        None \<Rightarrow> None
      | Some t \<Rightarrow> if now - t < cooldown_seconds self then Some (now - t) else None)"

text \<open>The message, if a guardrail blocks, and the executor as the check leaves it.\<close>

definition check_guardrails ::
  "datetime \<Rightarrow> trade_executor \<Rightarrow> arbitrage_opportunity \<Rightarrow> error_text option \<times> trade_executor" where
  "check_guardrails now self opp =
     (if \<not> enabled self then (Some AutoExecutionDisabled, self)
      else
        let self1 = reset_daily_if_needed now self
        in if daily_pnl self1 < - exec_max_daily_loss_usd self1
           then (Some (DailyLossLimitReached (daily_pnl self1)), self1)
           else if profit opp * 100 < exec_min_profit_cents self1
           then (Some (ProfitBelowMinimum (profit opp * 100) (exec_min_profit_cents self1)), self1)
           else (case cooldown_elapsed now self1 of
                   Some elapsed \<Rightarrow>
                     (Some (CooldownActive elapsed (cooldown_seconds self1)), self1)
                 | None \<Rightarrow>
                     if position_size self1 opp \<le> 0 then (Some NoExecutableSize, self1)
                     else (None, self1)))"

text \<open>
  The four leg functions log the order and return; placing it with a venue SDK is left
  open in the source. A call is recorded with the token or ticker, the price and the size
  that it logs; none of the four raises.
\<close>

datatype leg_call =
    BuyKalshiYes string real real
  | BuyKalshiNo string real real
  | BuyPolymarketYes string real real
  | BuyPolymarketNo string real real

definition buy_kalshi_yes :: "arbitrage_opportunity \<Rightarrow> real \<Rightarrow> leg_call \<times> string option" where
  "buy_kalshi_yes opp sz =
     (BuyKalshiYes (ticker (kalshi_market (matched_market opp))) (kalshi_price opp) sz, None)"

definition buy_kalshi_no :: "arbitrage_opportunity \<Rightarrow> real \<Rightarrow> leg_call \<times> string option" where
  "buy_kalshi_no opp sz =
     (BuyKalshiNo (ticker (kalshi_market (matched_market opp))) (kalshi_price opp) sz, None)"

definition buy_polymarket_yes :: "arbitrage_opportunity \<Rightarrow> real \<Rightarrow> leg_call \<times> string option" where
  "buy_polymarket_yes opp sz =
     (BuyPolymarketYes
        (case polymarket_outcome (matched_market opp) of None \<Rightarrow> [] | Some po \<Rightarrow> token_id po)
        (polymarket_price opp) sz, None)"

definition buy_polymarket_no :: "arbitrage_opportunity \<Rightarrow> real \<Rightarrow> leg_call \<times> string option" where
  "buy_polymarket_no opp sz =
     (BuyPolymarketNo
        (case outcomes (polymarket_market (matched_market opp)) of
           _ # second # _ \<Rightarrow> token_id second
         | _ \<Rightarrow> (case polymarket_outcome (matched_market opp) of
                   None \<Rightarrow> [] | Some po \<Rightarrow> token_id po))
        (polymarket_price opp) sz, None)"

text \<open>
  \<open>execute\<close> returns the record, the executor as it leaves it and the leg functions it
  called, in order.
\<close>

definition execute ::
  "datetime \<Rightarrow> trade_executor \<Rightarrow> arbitrage_opportunity
   \<Rightarrow> execution_record \<times> trade_executor \<times> leg_call list" where
  "execute now self opp =
     (case check_guardrails now self opp of
        (Some guard_error, self1) \<Rightarrow>
          let record = \<lparr>opportunity = opp, executed_at = now, success = False,
                        error = guard_error, pnl = 0\<rparr>
          in (record, self1\<lparr>execution_log := execution_log self1 @ [record]\<rparr>, [])
      | (None, self1) \<Rightarrow>
          let sz = position_size self1 opp;
              results = (if direction opp = KALSHI_YES_POLY_NO
                         then [buy_kalshi_yes opp sz, buy_polymarket_no opp sz]
                         else [buy_polymarket_yes opp sz, buy_kalshi_no opp sz]);
              errors = List.map_filter snd results
          in (case errors of
                exc # _ \<Rightarrow>
                  let record = \<lparr>opportunity = opp, executed_at = now, success = False,
                                error = LegException exc, pnl = 0\<rparr>
                  in (record, self1\<lparr>execution_log := execution_log self1 @ [record]\<rparr>,
                      map fst results)
              | [] \<Rightarrow>
                  let estimated_pnl = profit opp * sz;
                      record = \<lparr>opportunity = opp, executed_at = now, success = True,
                                error = NoError, pnl = estimated_pnl\<rparr>
                  in (record,
                      self1\<lparr>daily_pnl := daily_pnl self1 + estimated_pnl,
                            last_execution := Some now,
                            execution_log := execution_log self1 @ [record]\<rparr>,
                      map fst results)))"

section \<open>Scenarios\<close>

text \<open>
  Scenario 2 of the specification: the ask of YES on Kalshi is 0.45, the ask of NO on
  Polymarket 0.50; every other price and depth is unknown (0).
\<close>

definition scenario_profitable :: matched_market where
  "scenario_profitable =
     build_match
       ((Market KALSHI ''K1'' ''Will X happen?'')
          \<lparr>outcomes := [(Outcome ''Will X happen?'' 0 0 ''K1'')\<lparr>yes_ask := 45 / 100\<rparr>]\<rparr>)
       ((Market POLYMARKET ''P1'' ''Will X happen?'')
          \<lparr>outcomes := [(Outcome ''Yes'' 0 0 ''tok'')\<lparr>no_ask := 1 / 2\<rparr>]\<rparr>)
       100"

text \<open>The same pair with 100 contracts at the Kalshi YES ask and no depth known on Polymarket.\<close>

definition scenario_one_depth :: matched_market where
  "scenario_one_depth =
     build_match
       ((Market KALSHI ''K1'' ''Will X happen?'')
          \<lparr>outcomes := [(Outcome ''Will X happen?'' 0 0 ''K1'')
                          \<lparr>yes_ask := 45 / 100, yes_depth := 100\<rparr>]\<rparr>)
       ((Market POLYMARKET ''P1'' ''Will X happen?'')
          \<lparr>outcomes := [(Outcome ''Yes'' 0 0 ''tok'')\<lparr>no_ask := 1 / 2\<rparr>]\<rparr>)
       100"



text \<open>Scenario 5 of the specification: three 429 responses, then a 200.\<close>

definition three_429_then_200 :: "nat \<Rightarrow> py_error + http_response" where
  "three_429_then_200 attempt =
     (if attempt < 3 then Inr \<lparr>status_code = 429, json_body = None\<rparr>
      else Inr \<lparr>status_code = 200, json_body = Some (JObj [])\<rparr>)"

text \<open>
  The scenarios below hold numbers and lists as JSON values, not as text: with them the
  library functions of \<open>py_lib\<close> are never called, and this stand-in parses nothing.
\<close>

definition no_text_lib :: py_lib where
  "no_text_lib = \<lparr>str2float = (\<lambda>s. None), fromisoformat = (\<lambda>s. None),
                  json_loads = (\<lambda>s. None), str_of = (\<lambda>v. [])\<rparr>"

definition scenario_book :: "string \<Rightarrow> page" where
  "scenario_book tok =
     Inr \<lparr>status_code = 200,
          json_body = Some (JObj
            [(''bids'', JArr [JObj [(''price'', JNum (45 / 100)), (''size'', JNum 10)]]),
             (''asks'', JArr [JObj [(''price'', JNum (48 / 100)), (''size'', JNum 60)],
                             JObj [(''price'', JNum (47 / 100)), (''size'', JNum 25)]])])\<rparr>"

definition scenario_poly_market :: market where
  "scenario_poly_market =
     (Market POLYMARKET ''P1'' ''Will X happen?'')
       \<lparr>outcomes := [Outcome ''Yes'' (47 / 100) (53 / 100) ''tok'']\<rparr>"

text \<open>
  An executor that made 30 dollars on day 10, and an opportunity of one cent of profit,
  below the default minimum of two cents.
\<close>

definition yesterday_executor :: trade_executor where
  "yesterday_executor =
     (TradeExecutor default_settings)
       \<lparr>enabled := True, daily_pnl := 30, daily_reset_date := Some 10\<rparr>"

definition thin_opportunity :: arbitrage_opportunity where
  "thin_opportunity =
     \<lparr>matched_market = scenario_profitable, direction = KALSHI_YES_POLY_NO,
      cost = 99 / 100, profit = 1 / 100, roi = 101 / 100, max_size = 0,
      timestamp = 0, kalshi_price = 45 / 100, polymarket_price = 54 / 100\<rparr>"

text \<open>
  Market objects as the venues send them: a Kalshi market priced in cents, one with
  prices outside 0 to 100, a Polymarket market priced in fractions and one priced in
  cents.
\<close>

definition kalshi_cents_market :: jdict where
  "kalshi_cents_market =
     [(''ticker'', JStr ''KX-1''), (''title'', JStr ''Will X happen?''),
      (''yes_price'', JNum 55), (''no_price'', JNum 47)]"

definition kalshi_out_of_range_market :: jdict where
  "kalshi_out_of_range_market =
     [(''ticker'', JStr ''KX-1''), (''title'', JStr ''Will X happen?''),
      (''yes_price'', JNum 150), (''no_price'', JNum (- 5))]"

definition poly_fraction_market :: jdict where
  "poly_fraction_market =
     [(''id'', JStr ''P1''), (''question'', JStr ''Will X happen?''),
      (''outcomes'', JArr [JStr ''Yes'', JStr ''No'']),
      (''outcomePrices'', JArr [JNum (55 / 100), JNum (45 / 100)])]"

definition poly_cents_market :: jdict where
  "poly_cents_market =
     [(''id'', JStr ''P1''), (''question'', JStr ''Will X happen?''),
      (''outcomes'', JArr [JStr ''Yes'', JStr ''No'']),
      (''outcomePrices'', JArr [JNum 55, JNum 45])]"





text \<open>
  The scores that \<^verbatim>\<open>fuzz.token_sort_ratio\<close> of rapidfuzz gives the titles of the scenarios
  below: 100 for two equal titles, 90 for \<^verbatim>\<open>abcdefghij\<close> and \<^verbatim>\<open>abcdefghix\<close> (a longest
  common subsequence of 9 characters of 10 and 10: 100 * 2 * 9 / 20), and 0 for two titles
  without a common character, which all other pairs of the scenarios are.
\<close>

definition scenario_scorer :: "string \<Rightarrow> string \<Rightarrow> real" where
  "scenario_scorer query choice =
     (if query = choice then 100
      else if (query = ''abcdefghij'' \<and> choice = ''abcdefghix'')
              \<or> (query = ''abcdefghix'' \<and> choice = ''abcdefghij'') then 90
      else 0)"

text \<open>
  Markets with nothing but a venue, an id and a title, and two matchers with the default
  threshold 80: one with the override of K2 to P1, one without overrides.
\<close>

definition K1 :: market where "K1 = Market KALSHI ''K1'' ''alpha''"

definition K2 :: market where "K2 = Market KALSHI ''K2'' ''omega''"

definition P1 :: market where "P1 = Market POLYMARKET ''P1'' ''alpha''"

definition P2 :: market where "P2 = Market POLYMARKET ''P2'' ''zzz''"

definition K3 :: market where "K3 = Market KALSHI ''K3'' ''abcdefghij''"

definition P3 :: market where "P3 = Market POLYMARKET ''P3'' ''abcdefghix''"

definition P4 :: market where "P4 = Market POLYMARKET ''P4'' ''abcdefghij''"

definition overriding_matcher :: market_matcher where
  "overriding_matcher = MarketMatcher default_settings None [''K2'' \<mapsto> ''P1''] {}"

definition plain_matcher :: market_matcher where
  "plain_matcher = MarketMatcher default_settings None Map.empty {}"

section \<open>Properties of the detector\<close>

subsection \<open>Rounding\<close>





subsection \<open>What an emitted opportunity is\<close>

lemmas detector_defs = detect_opportunities_def pair_opportunities_def check_pair_direction_def
  direction_legs_def check_direction_def leg_yes_price_def leg_no_price_def leg_max_size_def
  effective_cost_def py_round_def round_half_even_def default_settings_def
  build_match_def Market_def Outcome_def Let_def

lemma check_direction_Some:
  "check_direction now mm dir yo no yf nf mp = Some opp \<longleftrightarrow>
     0 < leg_yes_price yo \<and> 0 < leg_no_price no
     \<and> mp \<le> 1 - effective_cost (leg_yes_price yo) (leg_no_price no) yf nf
     \<and> opp = \<lparr>matched_market = mm, direction = dir,
          cost = py_round (effective_cost (leg_yes_price yo) (leg_no_price no) yf nf) 4,
          profit = py_round (1 - effective_cost (leg_yes_price yo) (leg_no_price no) yf nf) 4,
          roi = py_round (if effective_cost (leg_yes_price yo) (leg_no_price no) yf nf > 0
                 then ((1 - effective_cost (leg_yes_price yo) (leg_no_price no) yf nf)
                        / effective_cost (leg_yes_price yo) (leg_no_price no) yf nf) * 100 else 0) 2,
          max_size = py_round (leg_max_size yo no) 2,
          timestamp = now,
          kalshi_price = (if dir = KALSHI_YES_POLY_NO then leg_yes_price yo else leg_no_price no),
          polymarket_price = (if dir = KALSHI_YES_POLY_NO then leg_no_price no else leg_yes_price yo)\<rparr>"
  unfolding check_direction_def Let_def by (auto simp: not_less not_le)

lemma check_direction_fields:
  assumes "check_direction now mm dir yo no yf nf mp = Some opp"
  shows "0 < leg_yes_price yo" "0 < leg_no_price no"
    "mp \<le> 1 - effective_cost (leg_yes_price yo) (leg_no_price no) yf nf"
    "cost opp = py_round (effective_cost (leg_yes_price yo) (leg_no_price no) yf nf) 4"
    "profit opp = py_round (1 - effective_cost (leg_yes_price yo) (leg_no_price no) yf nf) 4"
    "max_size opp = py_round (leg_max_size yo no) 2"
  using assms unfolding check_direction_Some by simp_all

lemma check_pair_direction_fields:
  assumes "check_pair_direction cfg now mp mm dir ko po = Some opp"
  shows "matched_market opp = mm" "direction opp = dir"
  using assms unfolding check_pair_direction_def
  by (auto simp: check_direction_Some split: prod.splits)

lemma in_pair_opportunities:
  "opp \<in> set (pair_opportunities cfg now mp mm) \<longleftrightarrow>
     (\<exists>ko po. kalshi_outcome mm = Some ko \<and> polymarket_outcome mm = Some po
        \<and> (check_pair_direction cfg now mp mm KALSHI_YES_POLY_NO ko po = Some opp
           \<or> check_pair_direction cfg now mp mm POLY_YES_KALSHI_NO ko po = Some opp))"
  unfolding pair_opportunities_def
  by (cases "kalshi_outcome mm"; cases "polymarket_outcome mm") (auto split: option.splits)

lemma in_detect_opportunities:
  "opp \<in> set (detect_opportunities cfg now mms mpc) \<longleftrightarrow>
     (\<exists>mm \<in> set mms. opp \<in> set (pair_opportunities cfg now
         ((case mpc of None \<Rightarrow> min_profit_cents cfg | Some c \<Rightarrow> c) / 100) mm))"
  unfolding detect_opportunities_def Let_def by auto

lemma emitted_direction:
  assumes "opp \<in> set (detect_opportunities cfg now mms mpc)"
  shows "matched_market opp \<in> set mms \<and>
     (\<exists>ko po. kalshi_outcome (matched_market opp) = Some ko
        \<and> polymarket_outcome (matched_market opp) = Some po
        \<and> check_pair_direction cfg now ((case mpc of None \<Rightarrow> min_profit_cents cfg | Some c \<Rightarrow> c) / 100)
             (matched_market opp) (direction opp) ko po = Some opp)"
proof -
  from assms obtain mm where mm: "mm \<in> set mms"
    and "opp \<in> set (pair_opportunities cfg now
         ((case mpc of None \<Rightarrow> min_profit_cents cfg | Some c \<Rightarrow> c) / 100) mm)"
    unfolding in_detect_opportunities by blast
  then obtain ko po dir where o: "kalshi_outcome mm = Some ko" "polymarket_outcome mm = Some po"
    and c: "check_pair_direction cfg now ((case mpc of None \<Rightarrow> min_profit_cents cfg | Some c \<Rightarrow> c) / 100)
              mm dir ko po = Some opp"
    unfolding in_pair_opportunities by blast
  from check_pair_direction_fields[OF c] mm o c show ?thesis by auto
qed



lemma one_depth_eval:
  "detect_opportunities default_settings 0 [scenario_one_depth] (Some 1) =
     [\<lparr>matched_market = scenario_one_depth, direction = KALSHI_YES_POLY_NO,
       cost = 9885 / 10000, profit = 115 / 10000, roi = 116 / 100, max_size = 100,
       timestamp = 0, kalshi_price = 45 / 100, polymarket_price = 1 / 2\<rparr>]"
  by (simp add: detector_defs) (simp add: scenario_one_depth_def detector_defs)

subsection \<open>C1: cost and profit\<close>




subsection \<open>C4: the size of an opportunity\<close>

text \<open>
  C4, as the claim states it, fails: with 100 contracts on the YES leg and the depth of
  the NO leg unknown (0), the emitted opportunity has \<open>max_size = 100\<close>, which is neither
  0 nor the minimum of the two depths.
\<close>

theorem detector_max_size_counterexample:
  "map max_size (detect_opportunities default_settings 0 [scenario_one_depth] (Some 1)) = [100]
   \<and> map yes_depth (outcomes (kalshi_market scenario_one_depth)) = [100]
   \<and> map no_depth (outcomes (polymarket_market scenario_one_depth)) = [0]
   \<and> (100 :: real) \<noteq> min 100 0"
  by (simp add: one_depth_eval) (simp add: scenario_one_depth_def build_match_def Market_def Outcome_def)

text \<open>
  C4 (amended): for every emitted opportunity, \<open>max_size\<close> is, rounded to 2 decimals, the
  minimum of the YES leg's \<open>yes_depth\<close> and the NO leg's \<open>no_depth\<close> when both are positive,
  the positive one when the other is unknown (not positive), and 0 only when both are
  unknown.
\<close>

theorem detector_max_size:
  assumes "opp \<in> set (detect_opportunities cfg now mms mpc)"
      and "kalshi_outcome (matched_market opp) = Some ko"
      and "polymarket_outcome (matched_market opp) = Some po"
      and "direction_legs cfg (direction opp) ko po = (yes_outcome, no_outcome, yes_fee_rate, no_fee_rate)"
      and "yd = yes_depth yes_outcome" and "nd = no_depth no_outcome"
  shows "max_size opp =
     py_round (if 0 < yd \<and> 0 < nd then min yd nd
               else if 0 < yd then yd
               else if 0 < nd then nd
               else 0) 2"
proof -
  from emitted_direction[OF assms(1)] assms(2,3)
  have "check_pair_direction cfg now ((case mpc of None \<Rightarrow> min_profit_cents cfg | Some c \<Rightarrow> c) / 100)
             (matched_market opp) (direction opp) ko po = Some opp" by auto
  with assms(4) have "check_direction now (matched_market opp) (direction opp) yes_outcome no_outcome
       yes_fee_rate no_fee_rate ((case mpc of None \<Rightarrow> min_profit_cents cfg | Some c \<Rightarrow> c) / 100) = Some opp"
    by (simp add: check_pair_direction_def)
  then have "max_size opp = py_round (leg_max_size yes_outcome no_outcome) 2"
    by (rule check_direction_fields)
  then show ?thesis unfolding assms(5,6) by (simp add: leg_max_size_def)
qed


theorem detector_max_size_witness:
  "detect_opportunities default_settings 0 [scenario_one_depth] (Some 1) \<noteq> []
   \<and> max_size (hd (detect_opportunities default_settings 0 [scenario_one_depth] (Some 1))) = 100"
proof -
  let ?opp = "hd (detect_opportunities default_settings 0 [scenario_one_depth] (Some 1))"
  let ?ko = "(Outcome ''Will X happen?'' 0 0 ''K1'')\<lparr>yes_ask := 45 / 100, yes_depth := 100\<rparr>"
  let ?po = "(Outcome ''Yes'' 0 0 ''tok'')\<lparr>no_ask := 1 / 2\<rparr>"
  have 1: "?opp \<in> set (detect_opportunities default_settings 0 [scenario_one_depth] (Some 1))"
    by (simp add: one_depth_eval)
  have 2: "kalshi_outcome (matched_market ?opp) = Some ?ko"
    by (simp add: one_depth_eval) (simp add: scenario_one_depth_def detector_defs)
  have 3: "polymarket_outcome (matched_market ?opp) = Some ?po"
    by (simp add: one_depth_eval) (simp add: scenario_one_depth_def detector_defs)
  have 4: "direction_legs default_settings (direction ?opp) ?ko ?po = (?ko, ?po, 7 / 100, 2 / 100)"
    by (simp add: one_depth_eval) (simp add: direction_legs_def default_settings_def)
  have 5: "100 = yes_depth ?ko" by (simp add: Outcome_def)
  have 6: "0 = no_depth ?po" by (simp add: Outcome_def)
  from detector_max_size[OF 1 2 3 4 5 6] 1 show ?thesis
    by (auto simp: py_round_def round_half_even_def)
qed

subsection \<open>C7: the profit threshold\<close>




section \<open>Properties of the venue clients\<close>

subsection \<open>C9: the retry helper\<close>

lemma retry_loop_skip_429s:
  assumes "a \<le> k" "k \<le> 5" "\<forall>i. a \<le> i \<and> i < k \<longrightarrow> is_429 (client i)"
  shows "\<exists>p. (a < k \<longrightarrow> (\<exists>r. p = Some r \<and> status_code r = 429)) \<and> (a = k \<longrightarrow> p = prev) \<and>
     retry_loop client a prev ws
       = retry_loop client k p (ws @ map (\<lambda>i. 15 / 10 * real (i + 1)) [a..<k])"
  using assms
proof (induction k rule: dec_induct)
  case base
  then show ?case by simp
next
  case (step n)
  then obtain p where p: "retry_loop client a prev ws
       = retry_loop client n p (ws @ map (\<lambda>i. 15 / 10 * real (i + 1)) [a..<n])" by auto
  from step have "is_429 (client n)" by simp
  then obtain r where r: "client n = Inr r" "status_code r = 429"
    by (auto simp: is_429_def split: sum.splits)
  from step have n5: "n < 5" by simp
  have "retry_loop client n p (ws @ map (\<lambda>i. 15 / 10 * real (i + 1)) [a..<n])
      = retry_loop client (Suc n) (Some r) (ws @ map (\<lambda>i. 15 / 10 * real (i + 1)) [a..<Suc n])"
    using r n5 step(1) by (subst retry_loop.simps) (simp add: algebra_simps)
  with p r show ?case using step(1) by auto
qed

lemma leading_429s_props:
  "leading_429s client \<le> 5"
  "i < leading_429s client \<Longrightarrow> is_429 (client i)"
  "leading_429s client < 5 \<Longrightarrow> \<not> is_429 (client (leading_429s client))"
proof -
  let ?P = "\<lambda>i. is_429 (client i)"
  show le: "leading_429s client \<le> 5"
    unfolding leading_429s_def using length_takeWhile_le[of ?P "[0..<5]"] by simp
  show "is_429 (client i)" if "i < leading_429s client"
  proof -
    have "?P ([0..<5] ! i)" using that unfolding leading_429s_def
      by (metis nth_mem set_takeWhileD takeWhile_nth)
    moreover have "i < 5" using that le by simp
    ultimately show ?thesis by simp
  qed
  show "\<not> is_429 (client (leading_429s client))" if "leading_429s client < 5"
  proof -
    have "\<not> ?P ([0..<5] ! length (takeWhile ?P [0..<5]))"
      by (rule nth_length_takeWhile) (use that in \<open>simp add: leading_429s_def\<close>)
    then show ?thesis using that by (simp add: leading_429s_def)
  qed
qed

text \<open>
  C9: \<open>_get_with_retry\<close> follows the retry policy: each 429 is followed by a wait of 1.5
  seconds times the number of the attempt and, up to the fifth attempt, by a retry; five
  429 responses end in an exception; any other status outside 2xx raises at once, with no
  further request; a 2xx response is returned.
\<close>

theorem get_with_retry_policy: "get_with_retry client = retry_policy client"
proof -
  let ?k = "leading_429s client"
  let ?w = "map (\<lambda>i. 15 / 10 * real (i + 1)) [0..<?k]"
  from retry_loop_skip_429s[of 0 ?k client None "[]"] leading_429s_props(1)[of client] leading_429s_props(2)[of _ client]
  obtain p where p: "0 < ?k \<longrightarrow> (\<exists>r. p = Some r \<and> status_code r = 429)"
    and e: "get_with_retry client = retry_loop client ?k p ?w"
    unfolding get_with_retry_def by auto
  show ?thesis
  proof (cases "?k = 5")
    case True
    with p obtain r where "p = Some r" "status_code r = 429" by auto
    with True e show ?thesis
      by (simp add: retry_policy_def raise_for_status_def)
  next
    case False
    with leading_429s_props(1)[of client] have lt: "?k < 5" by simp
    from leading_429s_props(3)[OF lt] have n: "\<not> is_429 (client ?k)" .
    show ?thesis
    proof (cases "client ?k")
      case (Inl err)
      with e lt False show ?thesis by (simp add: retry_policy_def Let_def)
    next
      case (Inr resp)
      with n have "status_code resp \<noteq> 429" by (simp add: is_429_def)
      with Inr e lt False show ?thesis
        by (simp add: retry_policy_def Let_def raise_for_status_def)
    qed
  qed
qed

theorem get_with_retry_policy_witness:
  "get_with_retry three_429_then_200 =
     \<lparr>returned = Inr \<lparr>status_code = 200, json_body = Some (JObj [])\<rparr>,
      slept = [15 / 10, 3, 45 / 10], requests = 4\<rparr>"
proof -
  have "leading_429s three_429_then_200 = 3"
    by (simp add: leading_429s_def three_429_then_200_def is_429_def upt_rec)
  then show ?thesis
    unfolding get_with_retry_policy
    by (simp add: retry_policy_def three_429_then_200_def upt_rec)
qed



subsection \<open>C10: the depth of the NO side on Polymarket\<close>

lemma bind_err_Inr: "bind_err r f = Inr y \<longleftrightarrow> (\<exists>x. r = Inr x \<and> f x = Inr y)"
  by (cases r) (simp_all add: bind_err_def)

lemma map_err_Inr:
  "map_err f xs = Inr ys \<Longrightarrow> list_all2 (\<lambda>x y. f x = Inr y) xs ys"
  by (induction xs arbitrary: ys) (auto simp: bind_err_Inr)

lemma first_best_min:
  "first_best (\<lambda>k' k. k' < k) cur kxs \<in> snd ` set (cur # kxs)"
  "\<exists>k. (k, first_best (\<lambda>k' k. k' < k) cur kxs) \<in> set (cur # kxs)
       \<and> k \<le> fst cur \<and> (\<forall>kx \<in> set kxs. k \<le> fst kx)"
proof (induction kxs arbitrary: cur)
  case Nil
  { case 1 show ?case by simp }
  { case 2 show ?case by (cases cur) auto }
next
  case (Cons kx kxs)
  { case 1 show ?case using Cons.IH(1)[of kx] Cons.IH(1)[of cur] by auto }
  { case 2
    show ?case
    proof (cases "fst kx < fst cur")
      case True
      from Cons.IH(2)[of kx] obtain k where
        "(k, first_best (\<lambda>k' k. k' < k) kx kxs) \<in> set (kx # kxs)" "k \<le> fst kx"
        "\<forall>kx \<in> set kxs. k \<le> fst kx" by blast
      with True show ?thesis by (intro exI[of _ k]) auto
    next
      case False
      from Cons.IH(2)[of cur] obtain k where
        "(k, first_best (\<lambda>k' k. k' < k) cur kxs) \<in> set (cur # kxs)" "k \<le> fst cur"
        "\<forall>kx \<in> set kxs. k \<le> fst kx" by blast
      with False show ?thesis by (intro exI[of _ k]) auto
    qed }
qed

lemma set_best_bid_depth: "set_best_bid lib bids oc = Inr oc' \<Longrightarrow> yes_depth oc' = yes_depth oc"
  unfolding set_best_bid_def by (auto simp: bind_err_Inr split: if_splits)

lemma set_best_ask_depth:
  "set_best_ask lib asks oc = Inr oc' \<Longrightarrow> truthy asks \<Longrightarrow>
     \<exists>best_ask. best_entry lib (\<lambda>k' k. k' < k) 999 asks = Inr best_ask
        \<and> py_float lib (get_or best_ask ''size'' (JNum 0)) = Inr (yes_depth oc')"
  unfolding set_best_ask_def by (auto simp: bind_err_Inr)

lemma enrich_outcome_depth:
  assumes "enrich_outcome lib clob oc = Inr oc'" and "token_id oc \<noteq> []"
  shows "no_depth oc' = yes_depth oc'"
    and "as_dict (fetch_orderbook clob (token_id oc)) = Inr book \<Longrightarrow>
         truthy (get_or book ''asks'' (JArr [])) \<Longrightarrow>
         \<exists>best_ask. best_entry lib (\<lambda>k' k. k' < k) 999 (get_or book ''asks'' (JArr [])) = Inr best_ask
           \<and> py_float lib (get_or best_ask ''size'' (JNum 0)) = Inr (no_depth oc')"
proof -
  from assms obtain bk oc1 oc2 where
    bk: "as_dict (fetch_orderbook clob (token_id oc)) = Inr bk"
    and s1: "set_best_ask lib (get_or bk ''asks'' (JArr [])) oc = Inr oc1"
    and s2: "set_best_bid lib (get_or bk ''bids'' (JArr [])) oc1 = Inr oc2"
    and o: "oc' = derive_no_side oc2"
    unfolding enrich_outcome_def Let_def by (auto simp: bind_err_Inr)
  from o show "no_depth oc' = yes_depth oc'" by (simp add: derive_no_side_def)
  show "\<exists>best_ask. best_entry lib (\<lambda>k' k. k' < k) 999 (get_or book ''asks'' (JArr [])) = Inr best_ask
           \<and> py_float lib (get_or best_ask ''size'' (JNum 0)) = Inr (no_depth oc')"
    if b: "as_dict (fetch_orderbook clob (token_id oc)) = Inr book"
      and t: "truthy (get_or book ''asks'' (JArr []))"
  proof -
    from b bk have "bk = book" by simp
    with set_best_ask_depth[OF s1] t set_best_bid_depth[OF s2] o show ?thesis
      by (simp add: derive_no_side_def)
  qed
qed

lemma price_key_Inr:
  "price_key lib dflt x = Inr kx \<longleftrightarrow>
     (\<exists>d. as_dict x = Inr d \<and> py_float lib (get_or d ''price'' (JNum dflt)) = Inr (fst kx) \<and> snd kx = x)"
  unfolding price_key_def by (cases kx) (auto simp: bind_err_Inr)

lemma as_dict_Inr: "as_dict x = Inr d \<longleftrightarrow> x = JObj d"
  by (cases x) auto

lemma list_all2_right: "list_all2 P xs ys \<Longrightarrow> y \<in> set ys \<Longrightarrow> \<exists>x \<in> set xs. P x y"
  by (induction rule: list_all2_induct) auto

lemma list_all2_left: "list_all2 P xs ys \<Longrightarrow> x \<in> set xs \<Longrightarrow> \<exists>y \<in> set ys. P x y"
  by (induction rule: list_all2_induct) auto

lemma best_entry_least:
  assumes "best_entry lib (\<lambda>k' k. k' < k) dflt entries = Inr best"
  shows "\<exists>xs kb. py_iter entries = Inr xs \<and> JObj best \<in> set xs
     \<and> py_float lib (get_or best ''price'' (JNum dflt)) = Inr kb
     \<and> (\<forall>x \<in> set xs. \<exists>d k. x = JObj d \<and> py_float lib (get_or d ''price'' (JNum dflt)) = Inr k \<and> kb \<le> k)"
proof -
  from assms obtain xs keyed where xs: "py_iter entries = Inr xs"
    and k: "map_err (price_key lib dflt) xs = Inr keyed"
    and b: "(case keyed of [] \<Rightarrow> Inl ValueError
             | kx # kxs \<Rightarrow> as_dict (first_best (\<lambda>k' k. k' < k) kx kxs)) = Inr best"
    unfolding best_entry_def by (auto simp: bind_err_Inr)
  from b obtain kx kxs where keyed: "keyed = kx # kxs"
    and fb: "first_best (\<lambda>k' k. k' < k) kx kxs = JObj best"
    by (cases keyed) (auto simp: as_dict_Inr)
  from map_err_Inr[OF k] have a2: "list_all2 (\<lambda>x kx. price_key lib dflt x = Inr kx) xs keyed" .
  from first_best_min(2)[of kx kxs] fb keyed obtain kb where
    kb: "(kb, JObj best) \<in> set keyed" and le: "\<forall>e \<in> set keyed. kb \<le> fst e" by auto
  from list_all2_right[OF a2 kb] obtain x where "x \<in> set xs" "price_key lib dflt x = Inr (kb, JObj best)"
    by blast
  then have 1: "JObj best \<in> set xs" "py_float lib (get_or best ''price'' (JNum dflt)) = Inr kb"
    by (auto simp: price_key_Inr as_dict_Inr)
  have "\<exists>d k. x = JObj d \<and> py_float lib (get_or d ''price'' (JNum dflt)) = Inr k \<and> kb \<le> k"
    if "x \<in> set xs" for x
  proof -
    from list_all2_left[OF a2 that] obtain e where "e \<in> set keyed" "price_key lib dflt x = Inr e"
      by blast
    with le show ?thesis by (auto simp: price_key_Inr as_dict_Inr)
  qed
  with xs 1 show ?thesis by blast
qed

lemmas enrich_defs = enrich_outcomes_with_orderbook_def enrich_outcome_def set_best_ask_def
  set_best_bid_def derive_no_side_def best_entry_def price_key_def fetch_orderbook_def
  raise_for_status_def resp_json_def bind_err_def get_or_def Let_def

lemma scenario_enrich_eval:
  "enrich_outcomes_with_orderbook no_text_lib scenario_book scenario_poly_market =
     Inr (scenario_poly_market
       \<lparr>outcomes := [(Outcome ''Yes'' (47 / 100) (53 / 100) ''tok'')
           \<lparr>yes_ask := 47 / 100, no_ask := 55 / 100, yes_bid := 45 / 100, no_bid := 53 / 100,
            yes_depth := 25, no_depth := 25\<rparr>]\<rparr>)"
  by (simp add: enrich_defs scenario_book_def scenario_poly_market_def Market_def Outcome_def
      py_round_def round_half_even_def)

text \<open>
  C10: when \<open>enrich_outcomes_with_orderbook\<close> returns, every outcome with a token id has
  \<open>no_depth = yes_depth\<close>; when the book fetched for it has asks, that depth is the size of
  the best ask, an entry of the asks whose price no other entry undercuts. No size of
  the NO side is read.
\<close>

theorem enrich_no_depth:
  assumes "enrich_outcomes_with_orderbook lib clob mkt = Inr mkt'"
      and "i < length (outcomes mkt)" and "token_id (outcomes mkt ! i) \<noteq> []"
  shows "length (outcomes mkt') = length (outcomes mkt)
     \<and> no_depth (outcomes mkt' ! i) = yes_depth (outcomes mkt' ! i)
     \<and> (\<forall>book. as_dict (fetch_orderbook clob (token_id (outcomes mkt ! i))) = Inr book
            \<and> truthy (get_or book ''asks'' (JArr [])) \<longrightarrow>
          (\<exists>best_ask asks kb.
             py_iter (get_or book ''asks'' (JArr [])) = Inr asks \<and> JObj best_ask \<in> set asks
             \<and> py_float lib (get_or best_ask ''price'' (JNum 999)) = Inr kb
             \<and> (\<forall>x \<in> set asks. \<exists>d k. x = JObj d
                    \<and> py_float lib (get_or d ''price'' (JNum 999)) = Inr k \<and> kb \<le> k)
             \<and> py_float lib (get_or best_ask ''size'' (JNum 0))
                 = Inr (no_depth (outcomes mkt' ! i))))"
proof -
  from assms(1) obtain outs where m: "map_err (enrich_outcome lib clob) (outcomes mkt) = Inr outs"
    and o: "outcomes mkt' = outs"
    unfolding enrich_outcomes_with_orderbook_def by (auto simp: bind_err_Inr)
  from map_err_Inr[OF m] have l: "length outs = length (outcomes mkt)"
    and e: "enrich_outcome lib clob (outcomes mkt ! i) = Inr (outs ! i)"
    using assms(2) by (auto simp: list_all2_conv_all_nth)
  note d = enrich_outcome_depth[OF e assms(3)]
  have "\<exists>best_ask asks kb.
             py_iter (get_or book ''asks'' (JArr [])) = Inr asks \<and> JObj best_ask \<in> set asks
             \<and> py_float lib (get_or best_ask ''price'' (JNum 999)) = Inr kb
             \<and> (\<forall>x \<in> set asks. \<exists>d k. x = JObj d
                    \<and> py_float lib (get_or d ''price'' (JNum 999)) = Inr k \<and> kb \<le> k)
             \<and> py_float lib (get_or best_ask ''size'' (JNum 0)) = Inr (no_depth (outs ! i))"
    if b: "as_dict (fetch_orderbook clob (token_id (outcomes mkt ! i))) = Inr book"
      and t: "truthy (get_or book ''asks'' (JArr []))" for book
  proof -
    from d(2)[OF b t] obtain best_ask where
      be: "best_entry lib (\<lambda>k' k. k' < k) 999 (get_or book ''asks'' (JArr [])) = Inr best_ask"
      and sz: "py_float lib (get_or best_ask ''size'' (JNum 0)) = Inr (no_depth (outs ! i))"
      by blast
    from best_entry_least[OF be] sz show ?thesis by blast
  qed
  with d(1) l o show ?thesis by simp
qed

theorem enrich_no_depth_witness:
  "map no_depth (outcomes (projr
      (enrich_outcomes_with_orderbook no_text_lib scenario_book scenario_poly_market))) = [25]
   \<and> map yes_depth (outcomes (projr
      (enrich_outcomes_with_orderbook no_text_lib scenario_book scenario_poly_market))) = [25]"
proof -
  let ?m = "scenario_poly_market
       \<lparr>outcomes := [(Outcome ''Yes'' (47 / 100) (53 / 100) ''tok'')
           \<lparr>yes_ask := 47 / 100, no_ask := 55 / 100, yes_bid := 45 / 100, no_bid := 53 / 100,
            yes_depth := 25, no_depth := 25\<rparr>]\<rparr>"
  have 2: "0 < length (outcomes scenario_poly_market)"
    and 3: "token_id (outcomes scenario_poly_market ! 0) \<noteq> []"
    by (simp_all add: scenario_poly_market_def Outcome_def)
  from enrich_no_depth[OF scenario_enrich_eval 2 3]
  have "no_depth (outcomes ?m ! 0) = yes_depth (outcomes ?m ! 0)" by blast
  then show ?thesis by (simp add: scenario_enrich_eval)
qed


subsection \<open>C5: the range of the parsed prices\<close>

lemma round_half_even_bounds: "\<lfloor>y\<rfloor> \<le> round_half_even y" "round_half_even y \<le> \<lceil>y\<rceil>"
proof -
  show "\<lfloor>y\<rfloor> \<le> round_half_even y" by (simp add: round_half_even_def Let_def)
  show "round_half_even y \<le> \<lceil>y\<rceil>"
  proof (cases "y = of_int \<lfloor>y\<rfloor>")
    case True
    then have "y - of_int \<lfloor>y\<rfloor> < 1 / 2" by simp
    then show ?thesis by (simp add: round_half_even_def Let_def floor_le_ceiling)
  next
    case False
    then have "\<lceil>y\<rceil> = \<lfloor>y\<rfloor> + 1" by (metis ceiling_altdef)
    then show ?thesis by (simp add: round_half_even_def Let_def)
  qed
qed

lemma py_round_unit: assumes "0 \<le> x" "x \<le> 1" shows "0 \<le> py_round x 4" "py_round x 4 \<le> 1"
proof -
  have "0 \<le> x * 10 ^ 4" using assms by simp
  then have "0 \<le> \<lfloor>x * 10 ^ 4\<rfloor>" by simp
  with round_half_even_bounds(1)[of "x * 10 ^ 4"] have "0 \<le> round_half_even (x * 10 ^ 4)" by linarith
  then show "0 \<le> py_round x 4" by (simp add: py_round_def)
  have "x * 10 ^ 4 \<le> of_int 10000" using assms by simp
  then have "\<lceil>x * 10 ^ 4\<rceil> \<le> 10000" by (simp only: ceiling_le_iff)
  with round_half_even_bounds(2)[of "x * 10 ^ 4"] have "round_half_even (x * 10 ^ 4) \<le> 10000" by linarith
  then have "real_of_int (round_half_even (x * 10 ^ 4)) \<le> 10000" by linarith
  then show "py_round x 4 \<le> 1" by (simp add: py_round_def)
qed

lemma derive_from_last_price_range:
  assumes "derive_from_last_price lib mkt 0 0 = Inr (y1, n1)"
      and "\<forall>l. float_field lib mkt ''last_price'' = Inr l \<longrightarrow> 0 \<le> l \<and> l \<le> 100"
  shows "0 \<le> y1 \<and> y1 \<le> 1 \<and> 0 \<le> n1 \<and> n1 \<le> 1"
proof -
  from assms(1) obtain l where l: "float_field lib mkt ''last_price'' = Inr l"
    and r: "(if l > 0 then let y = (if l > 1 then l / 100 else l) in Inr (y, py_round (1 - y) 4)
             else Inr (0, 0)) = (Inr (y1, n1) :: py_error + real \<times> real)"
    unfolding derive_from_last_price_def by (auto simp: bind_err_Inr)
  from l assms(2) have b: "0 \<le> l" "l \<le> 100" by auto
  show ?thesis
  proof (cases "l > 0")
    case False
    with r show ?thesis by simp
  next
    case True
    define y where "y = (if l > 1 then l / 100 else l)"
    from True b have y: "0 \<le> y" "y \<le> 1" by (auto simp: y_def)
    from r True have "y1 = y" "n1 = py_round (1 - y) 4" by (auto simp: y_def Let_def)
    with y py_round_unit[of "1 - y"] show ?thesis by simp
  qed
qed

lemma kalshi_prices_range:
  assumes "kalshi_prices lib mkt = Inr (yp, np)"
      and "float_field lib mkt ''yes_price'' = Inr y" "0 \<le> y" "y \<le> 100"
      and "float_field lib mkt ''no_price'' = Inr n" "0 \<le> n" "n \<le> 100"
      and "\<forall>l. float_field lib mkt ''last_price'' = Inr l \<longrightarrow> 0 \<le> l \<and> l \<le> 100"
  shows "0 \<le> yp \<and> yp \<le> 1 \<and> 0 \<le> np \<and> np \<le> 1"
    and "y \<noteq> 0 \<or> n \<noteq> 0 \<Longrightarrow> yp = (if y > 1 then y / 100 else y) \<and> np = (if n > 1 then n / 100 else n)"
proof -
  from assms(1,2,5) obtain y1 n1 where d: "derive_from_last_price lib mkt y n = Inr (y1, n1)"
    and e: "yp = cents_to_fraction y1" "np = cents_to_fraction n1"
    unfolding kalshi_prices_def by (auto simp: bind_err_Inr)
  show "yp = (if y > 1 then y / 100 else y) \<and> np = (if n > 1 then n / 100 else n)" if "y \<noteq> 0 \<or> n \<noteq> 0"
    using d e that unfolding derive_from_last_price_def cents_to_fraction_def by auto
  show "0 \<le> yp \<and> yp \<le> 1 \<and> 0 \<le> np \<and> np \<le> 1"
  proof (cases "y = 0 \<and> n = 0")
    case False
    with d have "y1 = y" "n1 = n" unfolding derive_from_last_price_def by auto
    with e assms(3,4,6,7) show ?thesis by (auto simp: cents_to_fraction_def)
  next
    case True
    with d derive_from_last_price_range[OF _ assms(8)] have "0 \<le> y1 \<and> y1 \<le> 1 \<and> 0 \<le> n1 \<and> n1 \<le> 1"
      by simp
    with e show ?thesis by (auto simp: cents_to_fraction_def)
  qed
qed

lemma build_kalshi_market_Inr:
  assumes "build_kalshi_market lib mkt et tick ttl = Inr m"
  shows "\<exists>yp np. kalshi_prices lib mkt = Inr (yp, np)
     \<and> market_id m = tick \<and> title m = ttl \<and> outcomes m = [Outcome ttl yp np tick]"
  using assms unfolding build_kalshi_market_def Let_def
  by (auto simp: bind_err_Inr)

lemma parse_market_Some:
  assumes "parse_market lib mkt et = Inr (Some m)"
  shows "\<exists>tick ttl yp np. text_field mkt ''ticker'' = Inr tick \<and> text_field mkt ''title'' = Inr ttl
     \<and> tick \<noteq> [] \<and> ttl \<noteq> [] \<and> kalshi_prices lib mkt = Inr (yp, np)
     \<and> market_id m = tick \<and> title m = ttl \<and> outcomes m = [Outcome ttl yp np tick]"
proof -
  from assms obtain tick ttl where t: "text_field mkt ''ticker'' = Inr tick"
    "text_field mkt ''title'' = Inr ttl"
    and r: "(if tick = [] \<or> ttl = [] then Inr None
      else bind_err (build_kalshi_market lib mkt et tick ttl) (\<lambda>m. Inr (Some m))) = Inr (Some m)"
    unfolding parse_market_def bind_err_Inr by blast
  from r have ne: "tick \<noteq> []" "ttl \<noteq> []" by (auto split: if_splits)
  with r have "build_kalshi_market lib mkt et tick ttl = Inr m" by (auto simp: bind_err_Inr)
  from build_kalshi_market_Inr[OF this] t ne show ?thesis by blast
qed


lemma parse_outcome_prices:
  assumes "parse_outcome lib prices toks ix = Inr oc"
  shows "no_price oc = (if yes_price oc \<noteq> 0 then py_round (1 - yes_price oc) 4 else 0)"
    and "prices = JArr ps \<Longrightarrow> fst ix < length ps \<Longrightarrow> py_float lib (ps ! fst ix) = Inr (yes_price oc)"
  using assms unfolding parse_outcome_def Let_def
  by (auto simp: bind_err_Inr Outcome_def split: if_splits)

lemma parse_outcomes_prices:
  assumes "parse_outcomes lib mkt = Inr outs"
  shows "\<forall>oc \<in> set outs. no_price oc = (if yes_price oc \<noteq> 0 then py_round (1 - yes_price oc) 4 else 0)"
    and "decode_field lib (get_or mkt ''outcomePrices'' (JArr [])) = JArr ps \<Longrightarrow>
         i < length outs \<Longrightarrow> i < length ps \<Longrightarrow> py_float lib (ps ! i) = Inr (yes_price (outs ! i))"
proof -
  from assms obtain names where
    m: "map_err (parse_outcome lib (decode_field lib (get_or mkt ''outcomePrices'' (JArr [])))
          (decode_field lib (get_or mkt ''clobTokenIds'' (JArr [])))) (enumerate 0 names) = Inr outs"
    unfolding parse_outcomes_def Let_def by (auto simp: bind_err_Inr)
  note a2 = map_err_Inr[OF m]
  show "\<forall>oc \<in> set outs. no_price oc = (if yes_price oc \<noteq> 0 then py_round (1 - yes_price oc) 4 else 0)"
  proof
    fix oc assume "oc \<in> set outs"
    from list_all2_right[OF a2 this] have "\<exists>ix. parse_outcome lib (decode_field lib (get_or mkt ''outcomePrices'' (JArr [])))
          (decode_field lib (get_or mkt ''clobTokenIds'' (JArr []))) ix = Inr oc"
      by blast
    then show "no_price oc = (if yes_price oc \<noteq> 0 then py_round (1 - yes_price oc) 4 else 0)"
      using parse_outcome_prices(1) by blast
  qed
  show "py_float lib (ps ! i) = Inr (yes_price (outs ! i))"
    if d: "decode_field lib (get_or mkt ''outcomePrices'' (JArr [])) = JArr ps"
      and i: "i < length outs" "i < length ps"
  proof -
    from a2 i have "parse_outcome lib (JArr ps)
          (decode_field lib (get_or mkt ''clobTokenIds'' (JArr []))) (enumerate 0 names ! i) = Inr (outs ! i)"
      and "i < length names"
      unfolding d by (auto simp: list_all2_conv_all_nth)
    from parse_outcome_prices(2)[OF this(1) refl] this(2) i show ?thesis
      by (simp add: nth_enumerate_eq)
  qed
qed


lemmas parse_defs = parse_market_def build_kalshi_market_def kalshi_prices_def
  derive_from_last_price_def cents_to_fraction_def float_field_def text_field_def
  kalshi_expiration_def py_or_def get_or_def get_none_def bind_err_def split_dash_first_def
  lower_def lower_char_def Let_def

lemmas poly_parse_defs = parse_outcomes_def parse_outcome_def decode_field_def py_str_def
  get_or_def bind_err_def enumerate_eq_zip Let_def py_round_def round_half_even_def

lemma kalshi_cents_eval:
  "map_sum id (map_option outcomes) (parse_market no_text_lib kalshi_cents_market [])
     = Inr (Some [Outcome ''Will X happen?'' (55 / 100) (47 / 100) ''KX-1''])"
  by (simp add: parse_defs kalshi_cents_market_def no_text_lib_def)

lemma poly_fraction_eval:
  "parse_outcomes no_text_lib poly_fraction_market
     = Inr [Outcome ''Yes'' (55 / 100) (45 / 100) [], Outcome ''No'' (45 / 100) (55 / 100) []]"
  by (simp add: poly_parse_defs poly_fraction_market_def no_text_lib_def upt_rec)

text \<open>
  C5, as the claim states it, fails. \<open>_parse_outcomes\<close> of Polymarket stores a price as it
  arrives: 55 stays 55 and gives a \<open>no_price\<close> of -54. On Kalshi a price of 150 is stored
  as 1.5 and a negative price stays negative.
\<close>

theorem parsed_prices_counterexample:
  "parse_outcomes no_text_lib poly_cents_market
     = Inr [Outcome ''Yes'' 55 (- 54) [], Outcome ''No'' 45 (- 44) []]
   \<and> map_sum id (map_option outcomes) (parse_market no_text_lib kalshi_out_of_range_market [])
     = Inr (Some [Outcome ''Will X happen?'' (15 / 10) (- 5) ''KX-1''])"
  by (simp add: poly_parse_defs parse_defs poly_cents_market_def kalshi_out_of_range_market_def
      no_text_lib_def upt_rec)

text \<open>
  C5 (amended): on Kalshi, when the \<open>yes_price\<close>, \<open>no_price\<close> and \<open>last_price\<close> of the market
  object are between 0 and 100, the stored outcome has \<open>0 \<le> yes_price \<le> 1\<close> and
  \<open>0 \<le> no_price \<le> 1\<close>, and a price above 1 is stored divided by 100 (unless both prices
  are 0 and the pair is derived from \<open>last_price\<close>). On Polymarket nothing is divided:
  \<open>yes_price\<close> is the outcome price as it arrives and \<open>no_price\<close> is \<open>1 - yes_price\<close>
  rounded to 4 decimals (0 when the price is 0), so both are between 0 and 1 when the
  price that arrives is.
\<close>

theorem parsed_prices_in_range:
  assumes "parse_market lib mkt event_title_arg = Inr (Some m)"
      and "float_field lib mkt ''yes_price'' = Inr y" "0 \<le> y" "y \<le> 100"
      and "float_field lib mkt ''no_price'' = Inr n" "0 \<le> n" "n \<le> 100"
      and "\<forall>l. float_field lib mkt ''last_price'' = Inr l \<longrightarrow> 0 \<le> l \<and> l \<le> 100"
      and "parse_outcomes lib pmkt = Inr outs"
  shows "(\<forall>oc \<in> set (outcomes m).
            0 \<le> yes_price oc \<and> yes_price oc \<le> 1 \<and> 0 \<le> no_price oc \<and> no_price oc \<le> 1
            \<and> (y \<noteq> 0 \<or> n \<noteq> 0 \<longrightarrow>
                 yes_price oc = (if y > 1 then y / 100 else y)
                 \<and> no_price oc = (if n > 1 then n / 100 else n)))
     \<and> (\<forall>oc \<in> set outs.
            no_price oc = (if yes_price oc \<noteq> 0 then py_round (1 - yes_price oc) 4 else 0)
            \<and> (0 \<le> yes_price oc \<and> yes_price oc \<le> 1 \<longrightarrow> 0 \<le> no_price oc \<and> no_price oc \<le> 1))
     \<and> (\<forall>ps i. decode_field lib (get_or pmkt ''outcomePrices'' (JArr [])) = JArr ps
            \<and> i < length outs \<and> i < length ps \<longrightarrow>
            py_float lib (ps ! i) = Inr (yes_price (outs ! i)))"
proof -
  from parse_market_Some[OF assms(1)] obtain tick ttl yp np where
    k: "kalshi_prices lib mkt = Inr (yp, np)" and o: "outcomes m = [Outcome ttl yp np tick]"
    by blast
  note r = kalshi_prices_range[OF k assms(2-8)]
  have A: "\<forall>oc \<in> set (outcomes m).
            0 \<le> yes_price oc \<and> yes_price oc \<le> 1 \<and> 0 \<le> no_price oc \<and> no_price oc \<le> 1
            \<and> (y \<noteq> 0 \<or> n \<noteq> 0 \<longrightarrow>
                 yes_price oc = (if y > 1 then y / 100 else y)
                 \<and> no_price oc = (if n > 1 then n / 100 else n))"
    using r unfolding o by (simp add: Outcome_def)
  note p = parse_outcomes_prices[OF assms(9)]
  have B: "\<forall>oc \<in> set outs.
            no_price oc = (if yes_price oc \<noteq> 0 then py_round (1 - yes_price oc) 4 else 0)
            \<and> (0 \<le> yes_price oc \<and> yes_price oc \<le> 1 \<longrightarrow> 0 \<le> no_price oc \<and> no_price oc \<le> 1)"
  proof
    fix oc assume oc: "oc \<in> set outs"
    with p(1) have e: "no_price oc = (if yes_price oc \<noteq> 0 then py_round (1 - yes_price oc) 4 else 0)"
      by blast
    have "0 \<le> no_price oc \<and> no_price oc \<le> 1" if "0 \<le> yes_price oc \<and> yes_price oc \<le> 1"
      using that py_round_unit[of "1 - yes_price oc"] unfolding e by simp
    with e show "no_price oc = (if yes_price oc \<noteq> 0 then py_round (1 - yes_price oc) 4 else 0)
            \<and> (0 \<le> yes_price oc \<and> yes_price oc \<le> 1 \<longrightarrow> 0 \<le> no_price oc \<and> no_price oc \<le> 1)"
      by blast
  qed
  from A B p(2) show ?thesis by blast
qed

theorem parsed_prices_in_range_witness:
  "map_sum id (map_option (map yes_price \<circ> outcomes)) (parse_market no_text_lib kalshi_cents_market [])
     = Inr (Some [55 / 100])
   \<and> map_sum id (map_option (map no_price \<circ> outcomes)) (parse_market no_text_lib kalshi_cents_market [])
     = Inr (Some [47 / 100])
   \<and> map_sum id (map no_price) (parse_outcomes no_text_lib poly_fraction_market)
     = Inr [45 / 100, 55 / 100]"
proof -
  obtain m where m: "parse_market no_text_lib kalshi_cents_market [] = Inr (Some m)"
    and om: "outcomes m = [Outcome ''Will X happen?'' (55 / 100) (47 / 100) ''KX-1'']"
    using kalshi_cents_eval
    by (cases "parse_market no_text_lib kalshi_cents_market []") auto
  have y: "float_field no_text_lib kalshi_cents_market ''yes_price'' = Inr 55"
    and n: "float_field no_text_lib kalshi_cents_market ''no_price'' = Inr 47"
    and l: "\<forall>l. float_field no_text_lib kalshi_cents_market ''last_price'' = Inr l \<longrightarrow> 0 \<le> l \<and> l \<le> 100"
    by (simp_all add: float_field_def get_or_def py_or_def kalshi_cents_market_def)
  from parsed_prices_in_range[OF m y _ _ n _ _ l poly_fraction_eval]
  have "\<forall>oc \<in> set (outcomes m). yes_price oc = 55 / 100 \<and> no_price oc = 47 / 100"
    and "\<forall>oc \<in> set [Outcome ''Yes'' (55 / 100) (45 / 100) [], Outcome ''No'' (45 / 100) (55 / 100) []].
           no_price oc = (if yes_price oc \<noteq> 0 then py_round (1 - yes_price oc) 4 else 0)"
    by auto
  then show ?thesis using m om by (simp add: poly_fraction_eval Outcome_def)
qed


subsection \<open>C6: which markets are dropped at parse time\<close>


















section \<open>Properties of the executor\<close>

subsection \<open>C8: an execution that a guardrail blocks\<close>

lemma check_guardrails_state:
  assumes "check_guardrails now self opp = (r, self1)"
  shows "self1 = (if enabled self then reset_daily_if_needed now self else self)"
  using assms unfolding check_guardrails_def Let_def
  by (auto split: if_splits option.splits)

text \<open>
  C8, as the claim states it, fails. The executor made 30 dollars on day 10; on day 11 an
  opportunity below the minimum profit is blocked, and the check has reset the daily PnL
  from 30 to 0 before it blocks.
\<close>

theorem execute_blocked_counterexample:
  "fst (check_guardrails (11 * 86400) yesterday_executor thin_opportunity) = Some (ProfitBelowMinimum 1 2)
   \<and> daily_pnl yesterday_executor = 30
   \<and> daily_pnl (fst (snd (execute (11 * 86400) yesterday_executor thin_opportunity))) = 0"
  by (simp add: execute_def check_guardrails_def reset_daily_if_needed_def utc_day_def
      yesterday_executor_def thin_opportunity_def TradeExecutor_def default_settings_def
      cooldown_elapsed_def position_size_def Let_def)

text \<open>
  C8 (amended): when a guardrail check fails, \<open>execute\<close> returns a record with
  \<open>success = False\<close> and the guardrail's message as \<open>error\<close>, calls no leg function, appends
  the record to the execution log and leaves the time of the last execution as it was;
  the daily PnL is as it was too, unless execution is enabled and the UTC day is not the
  day of the last reset: then the check has reset it to 0.
\<close>

theorem execute_blocked:
  assumes "check_guardrails now self opp = (Some reason, self1)"
      and "execute now self opp = (record, self', calls)"
  shows "success record = False \<and> error record = reason \<and> opportunity record = opp
     \<and> calls = []
     \<and> execution_log self' = execution_log self @ [record]
     \<and> last_execution self' = last_execution self
     \<and> daily_pnl self' =
         (if enabled self \<and> daily_reset_date self \<noteq> Some (utc_day now) then 0 else daily_pnl self)"
proof -
  from assms have r: "record = \<lparr>opportunity = opp, executed_at = now, success = False,
                        error = reason, pnl = 0\<rparr>"
    and s: "self' = self1\<lparr>execution_log := execution_log self1 @ [record]\<rparr>"
    and c: "calls = []"
    by (auto simp: execute_def Let_def)
  from check_guardrails_state[OF assms(1)]
  have s1: "self1 = (if enabled self then reset_daily_if_needed now self else self)" .
  show ?thesis unfolding s s1 using r c
    by (simp add: reset_daily_if_needed_def)
qed

theorem execute_blocked_witness:
  "success (fst (execute (11 * 86400) yesterday_executor thin_opportunity)) = False
   \<and> error (fst (execute (11 * 86400) yesterday_executor thin_opportunity)) = ProfitBelowMinimum 1 2
   \<and> snd (snd (execute (11 * 86400) yesterday_executor thin_opportunity)) = []
   \<and> last_execution (fst (snd (execute (11 * 86400) yesterday_executor thin_opportunity))) = None"
proof -
  obtain self1 where g: "check_guardrails (11 * 86400) yesterday_executor thin_opportunity
      = (Some (ProfitBelowMinimum 1 2), self1)"
    by (simp add: check_guardrails_def reset_daily_if_needed_def utc_day_def
      yesterday_executor_def thin_opportunity_def TradeExecutor_def default_settings_def
      cooldown_elapsed_def position_size_def Let_def)
  obtain rcd self' calls where e: "execute (11 * 86400) yesterday_executor thin_opportunity
      = (rcd, self', calls)" by (metis prod_cases3)
  from execute_blocked[OF g e] e show ?thesis
    by (simp add: yesterday_executor_def TradeExecutor_def)
qed



section \<open>Properties of the matcher\<close>

lemmas match_defs = match_def match_overrides_def fuzzy_candidates_def fuzzy_step_def
  override_step_def poly_by_id_def extractOne_def extract_step_def
  kalshi_best_step_def poly_best_step_def build_match_def Market_def MarketMatcher_def
  default_settings_def normalize_def strip_def is_space_def is_word_def lower_char_def Let_def
  enumerate_eq_zip

lemma first_scan:
  "match scenario_scorer overriding_matcher [K1] [P1, P2]
     = ([build_match K1 P1 100],
        overriding_matcher\<lparr>cache := [''K1'' \<mapsto> build_match K1 P1 100]\<rparr>)"
  by (simp add: match_defs K1_def P1_def P2_def overriding_matcher_def scenario_scorer_def)

lemma second_scan:
  "fst (match scenario_scorer (overriding_matcher\<lparr>cache := [''K1'' \<mapsto> build_match K1 P1 100]\<rparr>)
        [K1, K2] [P1, P2])
     = [build_match K2 P1 100, build_match K1 P1 100]"
  by (simp add: match_defs K1_def K2_def P1_def P2_def overriding_matcher_def scenario_scorer_def)


subsection \<open>C2: one pair for each market\<close>

text \<open>
  C2: the claim does not hold of the code. The matcher holds the override of K2 to P1.
  A first scan sees K1 alone and pairs it with P1, which the cache keeps; the second scan
  sees K1 and K2: the override pairs K2 with P1, the cache hands back the pair of K1 and
  P1, and P1 is in two pairs of the result.
\<close>

theorem match_repeats_polymarket_market:
  "map (market_id \<circ> kalshi_market)
      (fst (match scenario_scorer (snd (match scenario_scorer overriding_matcher [K1] [P1, P2]))
              [K1, K2] [P1, P2])) = [''K2'', ''K1'']
   \<and> map (market_id \<circ> polymarket_market)
      (fst (match scenario_scorer (snd (match scenario_scorer overriding_matcher [K1] [P1, P2]))
              [K1, K2] [P1, P2])) = [''P1'', ''P1'']"
  unfolding first_scan snd_conv second_scan
  by (simp add: build_match_def K1_def K2_def P1_def Market_def)


subsection \<open>C3: a Kalshi market with a cache entry\<close>

lemma set_dict_set: "set (dict_set k v kvs) \<subseteq> insert (k, v) (set kvs)"
  by (induction k v kvs rule: dict_set.induct) auto

lemma keys_dict_set: "fst ` set (dict_set k v kvs) = insert k (fst ` set kvs)"
  by (induction k v kvs rule: dict_set.induct) auto

lemma map_of_dict_set: "map_of (dict_set k v kvs) k' = (if k' = k then Some v else map_of kvs k')"
  by (induction k v kvs rule: dict_set.induct) auto

lemma override_step_cache:
  "overridden_kalshi acc \<subseteq> overridden_kalshi (override_step self by_id km acc)"
  "k \<notin> overridden_kalshi (override_step self by_id km acc) \<Longrightarrow>
     acc_cache (override_step self by_id km acc) k = acc_cache acc k"
  unfolding override_step_def Let_def by (auto split: option.splits)

lemma fold_override_step_cache:
  "overridden_kalshi acc \<subseteq> overridden_kalshi (fold (override_step self by_id) kms acc)
   \<and> (k \<notin> overridden_kalshi (fold (override_step self by_id) kms acc) \<longrightarrow>
        acc_cache (fold (override_step self by_id) kms acc) k = acc_cache acc k)"
proof (induction kms arbitrary: acc)
  case Nil
  then show ?case by simp
next
  case (Cons km kms)
  from Cons.IH[of "override_step self by_id km acc"]
    override_step_cache(1)[of acc self by_id km] override_step_cache(2)[of k self by_id km acc]
  show ?case by auto
qed

lemma match_overrides_cache:
  "k \<notin> overridden_kalshi (match_overrides self kms pms) \<Longrightarrow>
     acc_cache (match_overrides self kms pms) k = cache self k"
  unfolding match_overrides_def
  using fold_override_step_cache[of _ self "poly_by_id pms" kms k] by simp

text \<open>The invariant of the second loop for a cached market id.\<close>

lemma only_cached_other:
  assumes "only_cached k cached st" "k' \<noteq> k"
  shows "only_cached k cached (dict_set (k', pid) v (fst st), snd st)"
    and "only_cached k cached (dict_set (k', pid) v (fst st), (snd st)(k' \<mapsto> c))"
proof -
  have "((k, p), w) \<in> set (fst st)" if "((k, p), w) \<in> set (dict_set (k', pid) v (fst st))" for p w
    using that assms(2) set_dict_set[of "(k', pid)" v "fst st"] by auto
  with assms show "only_cached k cached (dict_set (k', pid) v (fst st), snd st)"
    and "only_cached k cached (dict_set (k', pid) v (fst st), (snd st)(k' \<mapsto> c))"
    unfolding only_cached_def by (simp_all; blast)+
qed

lemma only_cached_same:
  assumes "only_cached k cached st"
  shows "only_cached k cached
     (dict_set (k, market_id (polymarket_market cached)) (similarity_score cached, cached) (fst st),
      snd st)"
proof -
  have "((k, p), w) \<in> set (fst st)
        \<or> (p = market_id (polymarket_market cached) \<and> w = (similarity_score cached, cached))"
    if "((k, p), w) \<in> set (dict_set (k, market_id (polymarket_market cached))
          (similarity_score cached, cached) (fst st))" for p w
    using that set_dict_set[of "(k, market_id (polymarket_market cached))"
        "(similarity_score cached, cached)" "fst st"] by auto
  with assms show ?thesis unfolding only_cached_def by (simp; blast)
qed

lemma fuzzy_step_only_cached:
  assumes "only_cached k cached st"
  shows "only_cached k cached (fuzzy_step scorer self ov poly_list poly_titles km st)"
proof (cases "market_id km \<in> ov \<or> market_id km \<in> excluded self")
  case True
  with assms show ?thesis by (simp add: fuzzy_step_def)
next
  case skip: False
  show ?thesis
  proof (cases "market_id km = k")
    case True
    with assms have c: "snd st (market_id km) = Some cached" by (simp add: only_cached_def)
    have "fuzzy_step scorer self ov poly_list poly_titles km st = st
       \<or> fuzzy_step scorer self ov poly_list poly_titles km st
           = (dict_set (k, market_id (polymarket_market cached)) (similarity_score cached, cached) (fst st),
              snd st)"
      using skip c True unfolding fuzzy_step_def Let_def by auto
    with assms only_cached_same[OF assms] show ?thesis by auto
  next
    case False
    have "\<exists>pid v c. fuzzy_step scorer self ov poly_list poly_titles km st = st
       \<or> fuzzy_step scorer self ov poly_list poly_titles km st
           = (dict_set (market_id km, pid) v (fst st), snd st)
       \<or> fuzzy_step scorer self ov poly_list poly_titles km st
           = (dict_set (market_id km, pid) v (fst st), (snd st)(market_id km \<mapsto> c))"
      unfolding fuzzy_step_def Let_def
      by (auto split: option.splits prod.splits)
    with assms only_cached_other[OF assms False] show ?thesis by auto
  qed
qed

lemma fuzzy_step_keys:
  "fst ` set (fst st) \<subseteq> fst ` set (fst (fuzzy_step scorer self ov poly_list poly_titles km st))"
  unfolding fuzzy_step_def Let_def
  by (auto simp: keys_dict_set split: option.splits prod.splits)

lemma fuzzy_step_adds_cached:
  assumes "snd st (market_id km) = Some cached" "market_id km \<notin> ov" "market_id km \<notin> excluded self"
  shows "(market_id km, market_id (polymarket_market cached))
           \<in> fst ` set (fst (fuzzy_step scorer self ov poly_list poly_titles km st))"
proof -
  have "map_of (fst st) (market_id km, market_id (polymarket_market cached)) \<noteq> None
      \<longrightarrow> (market_id km, market_id (polymarket_market cached)) \<in> fst ` set (fst st)"
    by (auto simp: map_of_eq_None_iff)
  then show ?thesis
    using assms unfolding fuzzy_step_def Let_def
    by (auto simp: keys_dict_set split: option.splits)
qed

lemma fold_fuzzy_step_only_cached:
  "only_cached k cached st \<Longrightarrow>
   only_cached k cached (fold (fuzzy_step scorer self ov poly_list poly_titles) kms st)"
proof (induction kms arbitrary: st)
  case Nil
  then show ?case by simp
next
  case (Cons km kms)
  from Cons.IH[OF fuzzy_step_only_cached[OF Cons.prems]] show ?case by simp
qed

lemma fold_fuzzy_step_keys:
  "fst ` set (fst st) \<subseteq> fst ` set (fst (fold (fuzzy_step scorer self ov poly_list poly_titles) kms st))"
proof (induction kms arbitrary: st)
  case Nil
  then show ?case by simp
next
  case (Cons km kms)
  from fuzzy_step_keys[of st scorer self ov poly_list poly_titles km]
    Cons.IH[of "fuzzy_step scorer self ov poly_list poly_titles km st"]
  show ?case by auto
qed

lemma fold_fuzzy_step_adds_cached:
  assumes "km \<in> set kms" "only_cached (market_id km) cached st"
      "market_id km \<notin> ov" "market_id km \<notin> excluded self"
  shows "(market_id km, market_id (polymarket_market cached))
           \<in> fst ` set (fst (fold (fuzzy_step scorer self ov poly_list poly_titles) kms st))"
proof -
  from assms(1) obtain pre post where kms: "kms = pre @ km # post" by (auto simp: in_set_conv_decomp)
  let ?f = "fuzzy_step scorer self ov poly_list poly_titles"
  let ?s1 = "fold ?f pre st"
  from fold_fuzzy_step_only_cached[OF assms(2)] have "only_cached (market_id km) cached ?s1" .
  then have "snd ?s1 (market_id km) = Some cached" by (simp add: only_cached_def)
  from fuzzy_step_adds_cached[OF this assms(3,4)]
  have "(market_id km, market_id (polymarket_market cached)) \<in> fst ` set (fst (?f km ?s1))" .
  with fold_fuzzy_step_keys[of "?f km ?s1" scorer self ov poly_list poly_titles post]
  show ?thesis unfolding kms by auto
qed

lemma fold_kalshi_best_step:
  assumes "\<forall>pid v. ((k, pid), v) \<in> set best \<longrightarrow> v = v0"
      and "map_of kb k = None \<or> map_of kb k = Some v0"
  shows "map_of (fold kalshi_best_step best kb) k
     = (if (\<exists>pid v. ((k, pid), v) \<in> set best) then Some v0 else map_of kb k)"
  using assms
proof (induction best arbitrary: kb)
  case Nil
  then show ?case by simp
next
  case (Cons e best)
  obtain kid pid score m where e: "e = ((kid, pid), (score, m))" by (cases e) auto
  let ?kb = "kalshi_best_step e kb"
  show ?case
  proof (cases "kid = k")
    case True
    with Cons.prems(1) e have v0: "v0 = (score, m)" by auto
    have 1: "map_of ?kb k = Some v0"
      using Cons.prems(2) unfolding kalshi_best_step_def Let_def e True v0
      by (auto simp: map_of_dict_set)
    from Cons.prems(1) have 2: "\<forall>pid v. ((k, pid), v) \<in> set best \<longrightarrow> v = v0" by auto
    from Cons.IH[OF 2, of ?kb] 1 True e show ?thesis by auto
  next
    case False
    have 1: "map_of ?kb k = map_of kb k"
      using False unfolding kalshi_best_step_def Let_def e
      by (auto simp: map_of_dict_set)
    from Cons.prems(1) have 2: "\<forall>pid v. ((k, pid), v) \<in> set best \<longrightarrow> v = v0" by auto
    from Cons.IH[OF 2, of ?kb] 1 Cons.prems(2) False e show ?thesis by auto
  qed
qed

lemma cached_first_scan:
  "match scenario_scorer plain_matcher [K3] [P3]
     = ([build_match K3 P3 90], plain_matcher\<lparr>cache := [''K3'' \<mapsto> build_match K3 P3 90]\<rparr>)"
  by (simp add: match_defs K3_def P3_def plain_matcher_def scenario_scorer_def)

text \<open>
  C3, as the claim states it, fails. Without a cache entry K3 is matched with P4, whose
  title scores 100. With the cache entry of an earlier scan, the pair of K3 and P3 at 90,
  the result is that pair: no extraction over the current titles is run for K3; and it is
  that pair even when P3 is not among the Polymarket markets of the scan.
\<close>

theorem cached_pair_counterexample:
  "fst (match scenario_scorer plain_matcher [K3] [P3, P4]) = [build_match K3 P4 100]
   \<and> fst (match scenario_scorer (snd (match scenario_scorer plain_matcher [K3] [P3])) [K3] [P3, P4])
       = [build_match K3 P3 90]
   \<and> fst (match scenario_scorer (snd (match scenario_scorer plain_matcher [K3] [P3])) [K3] [P4])
       = [build_match K3 P3 90]"
  unfolding cached_first_scan
  by (simp add: match_defs K3_def P3_def P4_def plain_matcher_def scenario_scorer_def)

text \<open>
  C3 (amended): for a Kalshi market of the scan that is neither overridden nor excluded
  and has a cache entry whose Polymarket market is among the Polymarket markets of the
  scan that are not overridden, the second loop records the cached pair at its cached
  score and nothing else for the market, whatever the scorer says of the current titles:
  the cached pair is the best candidate of the market, and the cache keeps the entry.
\<close>

theorem cached_pair_is_the_candidate:
  assumes "km \<in> set kalshi_markets"
      and "acc = match_overrides self kalshi_markets polymarket_markets"
      and "market_id km \<notin> overridden_kalshi acc" and "market_id km \<notin> excluded self"
      and "cache self (market_id km) = Some cached"
      and "poly_list = filter (\<lambda>pm. market_id pm \<notin> overridden_poly acc) polymarket_markets"
      and "market_id (polymarket_market cached) \<in> market_id ` set poly_list"
  shows "(\<forall>pid v. ((market_id km, pid), v) \<in> set (fst (fuzzy_candidates scorer self acc poly_list kalshi_markets))
            \<longrightarrow> pid = market_id (polymarket_market cached) \<and> v = (similarity_score cached, cached))
     \<and> map_of (fold kalshi_best_step (fst (fuzzy_candidates scorer self acc poly_list kalshi_markets)) [])
          (market_id km) = Some (similarity_score cached, cached)
     \<and> snd (fuzzy_candidates scorer self acc poly_list kalshi_markets) (market_id km) = Some cached"
proof -
  let ?k = "market_id km"
  let ?st = "fuzzy_candidates scorer self acc poly_list kalshi_markets"
  from match_overrides_cache[of ?k self kalshi_markets polymarket_markets] assms(2,3,5)
  have "acc_cache acc ?k = Some cached" by simp
  then have i0: "only_cached ?k cached ([], acc_cache acc)" by (simp add: only_cached_def)
  from fold_fuzzy_step_only_cached[OF i0] have i: "only_cached ?k cached ?st"
    unfolding fuzzy_candidates_def .
  from fold_fuzzy_step_adds_cached[OF assms(1) i0 assms(3,4)]
  have "(?k, market_id (polymarket_market cached)) \<in> fst ` set (fst ?st)"
    unfolding fuzzy_candidates_def .
  then have ex: "\<exists>pid v. ((?k, pid), v) \<in> set (fst ?st)" by force
  from i have all: "\<forall>pid v. ((?k, pid), v) \<in> set (fst ?st) \<longrightarrow> v = (similarity_score cached, cached)"
    unfolding only_cached_def by blast
  from fold_kalshi_best_step[OF all, of "[]"] ex
  have "map_of (fold kalshi_best_step (fst ?st) []) ?k = Some (similarity_score cached, cached)"
    by simp
  with i show ?thesis unfolding only_cached_def by blast
qed


theorem cached_pair_is_the_candidate_witness:
  "map_of (fold kalshi_best_step
      (fst (fuzzy_candidates scenario_scorer
              (plain_matcher\<lparr>cache := [''K3'' \<mapsto> build_match K3 P3 90]\<rparr>)
              (match_overrides (plain_matcher\<lparr>cache := [''K3'' \<mapsto> build_match K3 P3 90]\<rparr>)
                 [K3] [P3, P4])
              [P3, P4] [K3])) []) ''K3''
     = Some (90, build_match K3 P3 90)"
proof -
  let ?self = "plain_matcher\<lparr>cache := [''K3'' \<mapsto> build_match K3 P3 90]\<rparr>"
  let ?acc = "match_overrides ?self [K3] [P3, P4]"
  have a: "?acc = \<lparr>override_matches = [], acc_cache = [''K3'' \<mapsto> build_match K3 P3 90],
                   overridden_kalshi = {}, overridden_poly = {}\<rparr>"
    by (simp add: match_overrides_def override_step_def plain_matcher_def MarketMatcher_def K3_def
        Market_def)
  have 1: "K3 \<in> set [K3]" by simp
  have 3: "market_id K3 \<notin> overridden_kalshi ?acc" unfolding a by simp
  have 4: "market_id K3 \<notin> excluded ?self" by (simp add: plain_matcher_def MarketMatcher_def)
  have 5: "cache ?self (market_id K3) = Some (build_match K3 P3 90)"
    by (simp add: K3_def Market_def)
  have 6: "[P3, P4] = filter (\<lambda>pm. market_id pm \<notin> overridden_poly ?acc) [P3, P4]"
    unfolding a by simp
  have 7: "market_id (polymarket_market (build_match K3 P3 90)) \<in> market_id ` set [P3, P4]"
    by (simp add: build_match_def)
  from cached_pair_is_the_candidate[OF 1 refl 3 4 5 6 7, of scenario_scorer]
  show ?thesis by (simp add: K3_def Market_def build_match_def)
qed


end
